theory Spec2Isabelle
  imports Complex_Main "HOL-Library.AList"
begin

section \<open>Speaker diarization of bava: data model\<close>

text \<open>
  The JavaScript numbers of the source are modelled as exact numbers: measurements
  (pitch, centroid, similarity, threshold) as \<open>real\<close>, timestamps in milliseconds as
  \<open>int\<close>, speaker ids, counters and palette indices as \<open>nat\<close> (an id is 0 or
  was taken from the counter \<open>speakerCount\<close>). Rounding of IEEE doubles is not part
  of the model. A JavaScript object keyed by speaker id is an association list read with
  \<open>map_of\<close>; \<open>null\<close> and \<open>undefined\<close> are \<open>None\<close>.
\<close>

record VoiceSample =
  pitch :: real
  centroid :: real

record Fingerprint =
  pitchAvg :: real
  pitchVar :: real
  centroidAvg :: real
  centroidVar :: real

text \<open>A profile has the fields of a fingerprint and a count, so that the source can hand a
  profile to \<open>compareFingerprints\<close>; the record extension gives the same.\<close>

record SpeakerProfile = Fingerprint +
  sampleCount :: nat

record SpeakerColor =
  name :: string
  hex :: string
  border :: string

type_synonym 'v obj = "(nat \<times> 'v) list"

text \<open>The record that \<open>saveSpeakerProfiles\<close> serialises under \<open>SPEAKERS_KEY\<close>
  (its \<open>savedAt\<close> time stamp is never read back and is left out).\<close>

record Saved =
  saved_profiles :: "SpeakerProfile obj"
  saved_names :: "string obj"
  saved_colorMap :: "nat obj"
  saved_nextColorIndex :: nat
  saved_speakerCount :: nat

text \<open>The speaker-tracking part of the module-level \<open>state\<close>, with \<open>localStorage\<close>
  at \<open>SPEAKERS_KEY\<close>, the sensitivity of \<open>state.settings\<close>, and the ids of the
  saved speakers that \<open>els.savedSpeakersList\<close> shows, each with its delete button.\<close>

record State =
  currentSpeakerId :: nat
  speakerColorMap :: "nat obj"
  nextColorIndex :: nat
  lastSpeechTime :: "int option"
  speakerCount :: nat
  speakerProfiles :: "SpeakerProfile obj"
  voiceSampleBuffer :: "VoiceSample list"
  voiceSampleTimer :: bool
  speakerNames :: "string obj"
  pendingAnalysis :: bool
  speakerSensitivity :: real
  localStorage :: "Saved option"
  savedSpeakersList :: "nat list"

definition SPEAKER_ANALYSIS_THRESHOLD :: int where
  "SPEAKER_ANALYSIS_THRESHOLD = 2000"

definition VOICE_PROFILE_MIN_SAMPLES :: nat where
  "VOICE_PROFILE_MIN_SAMPLES = 5"

definition SPEAKER_COLORS :: "SpeakerColor list" where
  "SPEAKER_COLORS =
    [\<lparr>name = ''Blauw'', hex = ''#4a9eff'', border = ''#2b7de9''\<rparr>,
     \<lparr>name = ''Oranje'', hex = ''#e69f00'', border = ''#c98a00''\<rparr>,
     \<lparr>name = ''Groen'', hex = ''#009e73'', border = ''#007a59''\<rparr>,
     \<lparr>name = ''Roze'', hex = ''#cc79a7'', border = ''#b05e8c''\<rparr>,
     \<lparr>name = ''Geel'', hex = ''#f0e442'', border = ''#d4c830''\<rparr>,
     \<lparr>name = ''Cyaan'', hex = ''#56b4e9'', border = ''#3a9ad4''\<rparr>,
     \<lparr>name = ''Rood'', hex = ''#d55e00'', border = ''#b34d00''\<rparr>,
     \<lparr>name = ''Paars'', hex = ''#a855f7'', border = ''#8b3de0''\<rparr>]"

text \<open>The \<open>state\<close> literal of the module; \<open>_pendingAnalysis\<close> is not in it and
  reads as \<open>undefined\<close>, which is falsy. Nothing is stored yet, and no saved speaker
  is listed.\<close>

definition initialState :: State where
  "initialState =
    \<lparr>currentSpeakerId = 0, speakerColorMap = [], nextColorIndex = 0,
     lastSpeechTime = None, speakerCount = 0, speakerProfiles = [],
     voiceSampleBuffer = [], voiceSampleTimer = False, speakerNames = [],
     pendingAnalysis = False, speakerSensitivity = 15, localStorage = None, savedSpeakersList = []\<rparr>"

subsection \<open>JavaScript objects keyed by speaker id\<close>

text \<open>\<open>Object.keys\<close> and \<open>Object.entries\<close> list integer keys in ascending order,
  each key once.\<close>

definition Object_keys :: "'v obj \<Rightarrow> nat list" where
  "Object_keys ob = sort (remdups (map fst ob))"

definition Object_entries :: "'v obj \<Rightarrow> (nat \<times> 'v) list" where
  "Object_entries ob = map (\<lambda>k. (k, the (map_of ob k))) (Object_keys ob)"

section \<open>Fingerprints\<close>

text \<open>\<open>buildFingerprint\<close>; the minimum number of samples is the module constant
  \<open>VOICE_PROFILE_MIN_SAMPLES\<close>, taken as a parameter here since the variants of the
  file differ in it (5 and 3). \<open>reduce\<close> is a left fold. The argument is always the
  sample buffer, an array, so the test \<open>!samples\<close> never holds.\<close>

definition buildFingerprintWith :: "nat \<Rightarrow> VoiceSample list \<Rightarrow> Fingerprint option" where
  "buildFingerprintWith minSamples samples =
    (if length samples < minSamples then None
     else
       let pitches = map pitch samples;
           centroids = map centroid samples;
           pAvg = foldl (\<lambda>a b. a + b) 0 pitches / real (length pitches);
           cAvg = foldl (\<lambda>a b. a + b) 0 centroids / real (length centroids);
           pVar = foldl (\<lambda>sum p. sum + (p - pAvg) ^ 2) 0 pitches / real (length pitches);
           cVar = foldl (\<lambda>sum c. sum + (c - cAvg) ^ 2) 0 centroids / real (length centroids)
       in Some \<lparr>pitchAvg = pAvg, pitchVar = pVar, centroidAvg = cAvg, centroidVar = cVar\<rparr>)"

definition buildFingerprint :: "VoiceSample list \<Rightarrow> Fingerprint option" where
  "buildFingerprint samples = buildFingerprintWith VOICE_PROFILE_MIN_SAMPLES samples"

text \<open>The arithmetic mean and the population variance, as the specification words them.\<close>

definition mean :: "real list \<Rightarrow> real" where
  "mean xs = sum_list xs / real (length xs)"

definition population_variance :: "real list \<Rightarrow> real" where
  "population_variance xs = sum_list (map (\<lambda>x. (x - mean xs) ^ 2) xs) / real (length xs)"

text \<open>\<open>compareFingerprints\<close>, on anything that has the fields of a fingerprint.\<close>

definition compareFingerprints ::
  "'a Fingerprint_scheme option \<Rightarrow> 'b Fingerprint_scheme option \<Rightarrow> real" where
  "compareFingerprints fp1 fp2 =
    (case (fp1, fp2) of
       (Some f1, Some f2) \<Rightarrow>
         let pitchRange = 440;
             pitchDiff = \<bar>pitchAvg f1 - pitchAvg f2\<bar> / pitchRange;
             centroidRange = 3800;
             centroidDiff = \<bar>centroidAvg f1 - centroidAvg f2\<bar> / centroidRange;
             distance = (pitchDiff * 0.6) + (centroidDiff * 0.4)
         in max 0 (1 - distance * 3)
     | _ \<Rightarrow> 0)"

text \<open>The weighted distance of the specification's similarity scorer.\<close>

definition weighted_distance :: "'a Fingerprint_scheme \<Rightarrow> 'b Fingerprint_scheme \<Rightarrow> real" where
  "weighted_distance a b =
     0.6 * (\<bar>pitchAvg a - pitchAvg b\<bar> / 440) + 0.4 * (\<bar>centroidAvg a - centroidAvg b\<bar> / 3800)"

text \<open>\<open>getSpeakerDifferThreshold\<close> reads the sensitivity of the settings.\<close>

definition getSpeakerDifferThreshold :: "State \<Rightarrow> real" where
  "getSpeakerDifferThreshold st =
    (let s = speakerSensitivity st / 100 in 0.05 + s * 0.45)"

section \<open>The profile store\<close>

text \<open>\<open>saveSpeakerProfiles\<close> writes one record; a write that throws is swallowed by the
  source and is not modelled. \<open>loadSpeakerProfiles\<close> reads it back, \<open>null\<close> when
  nothing is stored.\<close>

definition saveSpeakerProfiles :: "State \<Rightarrow> State" where
  "saveSpeakerProfiles st =
    st\<lparr>localStorage := Some
      \<lparr>saved_profiles = speakerProfiles st, saved_names = speakerNames st,
       saved_colorMap = speakerColorMap st, saved_nextColorIndex = nextColorIndex st,
       saved_speakerCount = speakerCount st\<rparr>\<rparr>"

definition loadSpeakerProfiles :: "State \<Rightarrow> Saved option" where
  "loadSpeakerProfiles st = localStorage st"

definition updateSpeakerProfile :: "nat \<Rightarrow> Fingerprint option \<Rightarrow> State \<Rightarrow> State" where
  "updateSpeakerProfile speakerId fingerprint st =
    (case fingerprint of
       None \<Rightarrow> st
     | Some fp \<Rightarrow>
        (case map_of (speakerProfiles st) speakerId of
           None \<Rightarrow>
             st\<lparr>speakerProfiles := AList.update speakerId
                  \<lparr>pitchAvg = pitchAvg fp, pitchVar = pitchVar fp,
                   centroidAvg = centroidAvg fp, centroidVar = centroidVar fp,
                   sampleCount = 1\<rparr> (speakerProfiles st)\<rparr>
         | Some existing \<Rightarrow>
             let alpha = min 0.3 (1 / (real (sampleCount existing) + 1));
                 updated =
                   \<lparr>pitchAvg = pitchAvg existing * (1 - alpha) + pitchAvg fp * alpha,
                    pitchVar = pitchVar existing * (1 - alpha) + pitchVar fp * alpha,
                    centroidAvg = centroidAvg existing * (1 - alpha) + centroidAvg fp * alpha,
                    centroidVar = centroidVar existing * (1 - alpha) + centroidVar fp * alpha,
                    sampleCount = sampleCount existing + 1\<rparr>;
                 st1 = st\<lparr>speakerProfiles := AList.update speakerId updated (speakerProfiles st)\<rparr>
             in if sampleCount updated mod 10 = 0 then saveSpeakerProfiles st1 else st1))"

section \<open>Voice sampling\<close>

definition stopVoiceSampling :: "State \<Rightarrow> State" where
  "stopVoiceSampling st = st\<lparr>voiceSampleTimer := False\<rparr>"

definition startVoiceSampling :: "State \<Rightarrow> State" where
  "startVoiceSampling st = (stopVoiceSampling st)\<lparr>voiceSampleBuffer := [], voiceSampleTimer := True\<rparr>"

text \<open>\<open>collectVoiceSample\<close>, with the two measurements of the audio frame as arguments.\<close>

definition collectVoiceSample :: "real \<Rightarrow> real \<Rightarrow> State \<Rightarrow> State" where
  "collectVoiceSample p c st =
    (if p > 0 \<and> c > 0
     then st\<lparr>voiceSampleBuffer := voiceSampleBuffer st @ [\<lparr>pitch = p, centroid = c\<rparr>]\<rparr>
     else st)"

section \<open>The diarization policy\<close>

text \<open>\<open>detectSpeakerChange\<close> with \<open>Date.now()\<close> as its argument. The gap is 0 when
  \<open>lastSpeechTime\<close> is falsy (\<open>null\<close> or 0).\<close>

definition silenceGap :: "int \<Rightarrow> State \<Rightarrow> int" where
  "silenceGap now st =
    (case lastSpeechTime st of None \<Rightarrow> 0 | Some t \<Rightarrow> if t = 0 then 0 else now - t)"

text \<open>The first conditional of the function: what a silence gap triggers.\<close>

definition onSilenceGap :: "int \<Rightarrow> State \<Rightarrow> State" where
  "onSilenceGap now st =
    (if silenceGap now st > SPEAKER_ANALYSIS_THRESHOLD then
       let currentFingerprint = buildFingerprint (voiceSampleBuffer st);
           st1 = updateSpeakerProfile (currentSpeakerId st) currentFingerprint st;
           st2 = startVoiceSampling st1
       in st2\<lparr>pendingAnalysis := True\<rparr>
     else st)"

text \<open>The loop over the entries of the profile store, with \<open>(bestMatch, bestScore)\<close>
  as its state; it starts at \<open>(-1, 0)\<close>.\<close>

fun bestMatchLoop ::
  "Fingerprint \<Rightarrow> nat \<Rightarrow> (nat \<times> SpeakerProfile) list \<Rightarrow> int \<times> real \<Rightarrow> int \<times> real" where
  "bestMatchLoop newFingerprint cur [] (bestMatch, bestScore) = (bestMatch, bestScore)"
| "bestMatchLoop newFingerprint cur ((speakerId, profile) # rest) (bestMatch, bestScore) =
    (if speakerId = cur then bestMatchLoop newFingerprint cur rest (bestMatch, bestScore)
     else
       let score = compareFingerprints (Some newFingerprint) (Some profile)
       in if score > bestScore
          then bestMatchLoop newFingerprint cur rest (int speakerId, score)
          else bestMatchLoop newFingerprint cur rest (bestMatch, bestScore))"

text \<open>The second conditional: the analysis of the new voice once enough samples are there.\<close>

definition analysePending :: "State \<Rightarrow> State" where
  "analysePending st =
    (if pendingAnalysis st \<and> length (voiceSampleBuffer st) \<ge> VOICE_PROFILE_MIN_SAMPLES then
       (case buildFingerprint (voiceSampleBuffer st) of
          None \<Rightarrow> st
        | Some newFingerprint \<Rightarrow>
            let currentProfile = map_of (speakerProfiles st) (currentSpeakerId st);
                currentSimilarity =
                  (case currentProfile of
                     Some p \<Rightarrow> compareFingerprints (Some newFingerprint) (Some p)
                   | None \<Rightarrow> 1);
                differThreshold = getSpeakerDifferThreshold st
            in if currentSimilarity \<ge> differThreshold then st\<lparr>pendingAnalysis := False\<rparr>
               else
                 let (bestMatch, bestScore) =
                       bestMatchLoop newFingerprint (currentSpeakerId st)
                         (Object_entries (speakerProfiles st)) (- 1, 0);
                     st1 =
                       (if bestMatch \<ge> 0 \<and> bestScore \<ge> getSpeakerDifferThreshold st
                        then st\<lparr>currentSpeakerId := nat bestMatch\<rparr>
                        else st\<lparr>currentSpeakerId := speakerCount st,
                                speakerCount := speakerCount st + 1\<rparr>)
                 in st1\<lparr>pendingAnalysis := False\<rparr>)
     else st)"

definition detectSpeakerChange :: "int \<Rightarrow> State \<Rightarrow> nat \<times> State" where
  "detectSpeakerChange now st =
    (let st1 = onSilenceGap now st;
         st2 = analysePending st1;
         st3 = st2\<lparr>lastSpeechTime := Some now\<rparr>
     in (currentSpeakerId st3, st3))"

section \<open>Colours\<close>

text \<open>Indexing the palette gives \<open>undefined\<close> out of range.\<close>

definition SPEAKER_COLORS_at :: "nat \<Rightarrow> SpeakerColor option" where
  "SPEAKER_COLORS_at i = (if i < length SPEAKER_COLORS then Some (SPEAKER_COLORS ! i) else None)"

definition getSpeakerColor :: "nat \<Rightarrow> State \<Rightarrow> SpeakerColor option \<times> State" where
  "getSpeakerColor speakerId st =
    (let st1 =
       (if map_of (speakerColorMap st) speakerId = None
        then st\<lparr>speakerColorMap :=
                  AList.update speakerId (nextColorIndex st mod length SPEAKER_COLORS)
                    (speakerColorMap st),
                nextColorIndex := nextColorIndex st + 1\<rparr>
        else st)
     in (case map_of (speakerColorMap st1) speakerId of
           None \<Rightarrow> None
         | Some i \<Rightarrow> SPEAKER_COLORS_at i,
         st1))"

text \<open>The palette index that an id has in the colour map.\<close>

definition colorIndex :: "State \<Rightarrow> nat \<Rightarrow> nat option" where
  "colorIndex st speakerId = map_of (speakerColorMap st) speakerId"

text \<open>\<open>handleResults\<close> asks for the colour of each id it attributes; this asks for the
  colours of a list of ids, in order.\<close>

fun colorAll :: "nat list \<Rightarrow> State \<Rightarrow> State" where
  "colorAll [] st = st"
| "colorAll (speakerId # ids) st = colorAll ids (snd (getSpeakerColor speakerId st))"

section \<open>Session operations\<close>

definition resetSpeakerState :: "State \<Rightarrow> State" where
  "resetSpeakerState st =
    (let cleared = st\<lparr>speakerProfiles := [], speakerNames := [], speakerColorMap := [],
                      nextColorIndex := 0, speakerCount := 1, currentSpeakerId := 0\<rparr>;
         st1 =
           (case loadSpeakerProfiles st of
              None \<Rightarrow> cleared
            | Some saved \<Rightarrow>
                if length (Object_keys (saved_profiles saved)) > 0 then
                  st\<lparr>speakerProfiles := saved_profiles saved,
                     speakerNames := saved_names saved,
                     speakerColorMap := saved_colorMap saved,
                     nextColorIndex :=
                       (if saved_nextColorIndex saved \<noteq> 0 then saved_nextColorIndex saved
                        else length (Object_keys (saved_colorMap saved))),
                     speakerCount :=
                       (if saved_speakerCount saved \<noteq> 0 then saved_speakerCount saved
                        else length (Object_keys (saved_profiles saved))),
                     currentSpeakerId := 0\<rparr>
                else cleared)
     in stopVoiceSampling
          (st1\<lparr>lastSpeechTime := None, voiceSampleBuffer := [], pendingAnalysis := False\<rparr>))"

text \<open>\<open>renderSavedSpeakers\<close> rebuilds the list of saved speakers from what is stored:
  one item, with a delete button, for each entry of the stored profiles, and no item when
  nothing or no profile is stored. Of the items the model keeps the speaker ids.\<close>

definition renderSavedSpeakers :: "State \<Rightarrow> State" where
  "renderSavedSpeakers st =
    (case loadSpeakerProfiles st of
       None \<Rightarrow> st\<lparr>savedSpeakersList := []\<rparr>
     | Some saved \<Rightarrow>
         if length (Object_keys (saved_profiles saved)) = 0
         then st\<lparr>savedSpeakersList := []\<rparr>
         else st\<lparr>savedSpeakersList := map fst (Object_entries (saved_profiles saved))\<rparr>)"

text \<open>The click handler that \<open>renderSavedSpeakers\<close> puts on the delete button of one
  saved speaker; it exists for the ids in \<open>savedSpeakersList\<close>.\<close>

definition deleteSavedSpeaker :: "nat \<Rightarrow> State \<Rightarrow> State" where
  "deleteSavedSpeaker speakerId st =
    renderSavedSpeakers
      (saveSpeakerProfiles
        (st\<lparr>speakerProfiles := AList.delete speakerId (speakerProfiles st),
            speakerNames := AList.delete speakerId (speakerNames st),
            speakerColorMap := AList.delete speakerId (speakerColorMap st)\<rparr>))"

text \<open>The click handler of \<open>btnClearSpeakers\<close>, once confirmed.\<close>

definition clearAllSpeakers :: "State \<Rightarrow> State" where
  "clearAllSpeakers st =
    renderSavedSpeakers
      (st\<lparr>localStorage := None, speakerProfiles := [], speakerNames := [],
          speakerColorMap := [], nextColorIndex := 0, speakerCount := 1,
          currentSpeakerId := 0\<rparr>)"

text \<open>What \<open>stopListening\<close> does to the speaker state: sampling stops, the last segment
  goes into the profile of the current speaker, the store is saved, and the list of saved
  speakers is rebuilt.\<close>

definition stopListening :: "State \<Rightarrow> State" where
  "stopListening st =
    (let st1 = stopVoiceSampling st;
         currentFingerprint = buildFingerprint (voiceSampleBuffer st1)
     in renderSavedSpeakers
          (saveSpeakerProfiles
            (updateSpeakerProfile (currentSpeakerId st1) currentFingerprint st1)))"

text \<open>Loading the page: the \<open>state\<close> literal, what the browser has stored, and the
  list of saved speakers that \<open>init\<close> renders from it.\<close>

definition pageLoad :: "Saved option \<Rightarrow> State" where
  "pageLoad stored = renderSavedSpeakers (initialState\<lparr>localStorage := stored\<rparr>)"

text \<open>The states of a page: \<open>reach started st\<close>, where \<open>started\<close> says that
  \<open>startListening\<close> has called \<open>resetSpeakerState\<close> since the page was loaded.
  Speech events and samples arrive only after that; the settings panel can clear at any
  time, and delete the saved speakers that it lists; loading the page anew keeps only what
  is stored. Renaming a speaker is left out.\<close>

inductive reach :: "bool \<Rightarrow> State \<Rightarrow> bool" where
  page: "reach False (pageLoad None)"
| reload: "reach b st \<Longrightarrow> reach False (pageLoad (localStorage st))"
| sensitivity: "reach b st \<Longrightarrow> reach b (st\<lparr>speakerSensitivity := s\<rparr>)"
| start: "reach b st \<Longrightarrow> reach True (resetSpeakerState st)"
| delete: "reach b st \<Longrightarrow> speakerId \<in> set (savedSpeakersList st) \<Longrightarrow>
     reach b (deleteSavedSpeaker speakerId st)"
| clear: "reach b st \<Longrightarrow> reach b (clearAllSpeakers st)"
| sample: "reach True st \<Longrightarrow> reach True (collectVoiceSample p c st)"
| speech: "reach True st \<Longrightarrow> reach True (snd (detectSpeakerChange now st))"
| color: "reach True st \<Longrightarrow> reach True (snd (getSpeakerColor (currentSpeakerId st) st))"
| stop: "reach True st \<Longrightarrow> reach True (stopListening st)"

section \<open>Notions used in the statements\<close>

text \<open>No profile of the first state is lost or has a smaller count in the second.\<close>

definition keepsCounts :: "State \<Rightarrow> State \<Rightarrow> bool" where
  "keepsCounts st st' =
    (\<forall>speakerId e. map_of (speakerProfiles st) speakerId = Some e \<longrightarrow>
       (\<exists>e'. map_of (speakerProfiles st') speakerId = Some e' \<and> sampleCount e \<le> sampleCount e'))"

text \<open>The fingerprints of two voices that differ clearly, and a profile made of the
  first.\<close>

definition voiceA :: Fingerprint where
  "voiceA = \<lparr>pitchAvg = 120, pitchVar = 4, centroidAvg = 800, centroidVar = 9\<rparr>"

definition voiceB :: Fingerprint where
  "voiceB = \<lparr>pitchAvg = 220, pitchVar = 1, centroidAvg = 2500, centroidVar = 16\<rparr>"

definition profileA :: SpeakerProfile where
  "profileA = \<lparr>pitchAvg = 120, pitchVar = 4, centroidAvg = 800, centroidVar = 9, sampleCount = 1\<rparr>"

text \<open>The similarity of a new fingerprint to the profile of the current speaker, as
  \<open>detectSpeakerChange\<close> computes it, and the stored profiles of the other speakers.\<close>

definition currentSimilarity :: "State \<Rightarrow> Fingerprint \<Rightarrow> real" where
  "currentSimilarity st fp =
    (case map_of (speakerProfiles st) (currentSpeakerId st) of
       Some p \<Rightarrow> compareFingerprints (Some fp) (Some p)
     | None \<Rightarrow> 1)"

definition otherProfiles :: "State \<Rightarrow> (nat \<times> SpeakerProfile) set" where
  "otherProfiles st =
    {(i, p). map_of (speakerProfiles st) i = Some p \<and> i \<noteq> currentSpeakerId st}"

section \<open>A session with two voices\<close>

text \<open>The session starts on an empty store. Speech at 1.0 s and, after a pause, at 4.0 s;
  five samples of a first voice; speech at 4.5 s; after a pause, speech at 8.0 s; five
  samples of a second, clearly different voice; speech at 8.5 s; after a pause, speech at
  12.0 s; then listening is stopped, which saves the two speakers and lists them in the
  settings panel, and the saved speaker 0 is deleted there.\<close>

fun collectSamples :: "VoiceSample list \<Rightarrow> State \<Rightarrow> State" where
  "collectSamples [] st = st"
| "collectSamples (x # xs) st = collectSamples xs (collectVoiceSample (pitch x) (centroid x) st)"

definition sampleA :: VoiceSample where
  "sampleA = \<lparr>pitch = 120, centroid = 800\<rparr>"

definition sampleB :: VoiceSample where
  "sampleB = \<lparr>pitch = 220, centroid = 2500\<rparr>"

definition started :: State where
  "started = resetSpeakerState (pageLoad None)"

definition firstWords :: State where
  "firstWords = snd (detectSpeakerChange 1000 started)"

definition afterPause :: State where
  "afterPause = snd (detectSpeakerChange 4000 firstWords)"

definition hearingA :: State where
  "hearingA = collectSamples [sampleA, sampleA, sampleA, sampleA, sampleA] afterPause"

definition keptA :: State where
  "keptA = snd (detectSpeakerChange 4500 hearingA)"

definition secondPause :: State where
  "secondPause = snd (detectSpeakerChange 8000 keptA)"

definition hearingB :: State where
  "hearingB = collectSamples [sampleB, sampleB, sampleB, sampleB, sampleB] secondPause"

definition mintedB :: State where
  "mintedB = snd (detectSpeakerChange 8500 hearingB)"

definition thirdPause :: State where
  "thirdPause = snd (detectSpeakerChange 12000 mintedB)"

definition stopped :: State where
  "stopped = stopListening thirdPause"

definition deletedA :: State where
  "deletedA = deleteSavedSpeaker 0 stopped"

text \<open>Every id of a stored profile is below \<open>speakerCount\<close>: in the state, and in
  the saved record.\<close>

definition idsBelowCount :: "State \<Rightarrow> bool" where
  "idsBelowCount st = (\<forall>k \<in> set (Object_keys (speakerProfiles st)). k < speakerCount st)"

definition savedIdsBelowCount :: "Saved option \<Rightarrow> bool" where
  "savedIdsBelowCount stored =
    (case stored of
       None \<Rightarrow> True
     | Some saved \<Rightarrow> \<forall>k \<in> set (Object_keys (saved_profiles saved)). k < saved_speakerCount saved)"

text \<open>What holds of the ids in every state of a page: the stored profiles, in the state
  and in the saved record, have ids below the counter, and so has the current speaker once
  the session has started.\<close>

definition storeInvariant :: "bool \<Rightarrow> State \<Rightarrow> bool" where
  "storeInvariant b st = (idsBelowCount st \<and> savedIdsBelowCount (localStorage st)
     \<and> (b \<longrightarrow> currentSpeakerId st < speakerCount st))"

section \<open>Similarity\<close>

text \<open>
  Claim C4. \<open>compareFingerprints\<close> is 0 when either argument is absent; on two
  fingerprints it is \<open>max 0 (1 - 3 * d)\<close> for the weighted distance \<open>d\<close>; a
  fingerprint compared with itself scores 1; and the score is 0 exactly when \<open>d\<close> is
  at least a third.
\<close>

theorem compareFingerprints_spec:
  "compareFingerprints None fp2 = 0
   \<and> compareFingerprints fp1 None = 0
   \<and> compareFingerprints (Some a) (Some b) =
       max 0 (1 - 3 * (0.6 * \<bar>pitchAvg a - pitchAvg b\<bar> / 440
                        + 0.4 * \<bar>centroidAvg a - centroidAvg b\<bar> / 3800))
   \<and> compareFingerprints (Some f) (Some f) = 1
   \<and> ((compareFingerprints (Some a) (Some b) = 0) = (1 / 3 \<le> weighted_distance a b))"
proof -
  have absent1: "compareFingerprints None fp2 = 0"
    by (simp add: compareFingerprints_def)
  have absent2: "compareFingerprints fp1 None = 0"
    by (cases fp1) (simp_all add: compareFingerprints_def)
  have formula: "compareFingerprints (Some a) (Some b) = max 0 (1 - 3 * weighted_distance a b)"
    by (simp add: compareFingerprints_def weighted_distance_def Let_def algebra_simps)
  have self: "compareFingerprints (Some f) (Some f) = 1"
    by (simp add: compareFingerprints_def)
  have zero: "(compareFingerprints (Some a) (Some b) = 0) = (1 / 3 \<le> weighted_distance a b)"
    unfolding formula by (auto simp: max_def)
  show ?thesis
    using absent1 absent2 self zero formula
    by (simp add: weighted_distance_def)
qed

section \<open>Fingerprint construction\<close>

lemma foldl_plus_sum_list: "foldl (\<lambda>a b. a + b) (a::real) xs = a + sum_list xs"
  by (induction xs arbitrary: a) simp_all

lemma foldl_sq_sum_list:
  "foldl (\<lambda>sum p. sum + (p - m) ^ 2) (a::real) xs = a + sum_list (map (\<lambda>x. (x - m) ^ 2) xs)"
  by (induction xs arbitrary: a) simp_all

text \<open>
  Claim C6. \<open>buildFingerprint\<close> returns the absent value exactly when there are fewer
  samples than the minimum, whatever the minimum is; with enough samples (and at least
  one, so that the quotients are defined) the fingerprint holds the arithmetic means and
  the population variances of the pitches and of the centroids. The minimum of the source
  is 5.
\<close>

theorem buildFingerprint_spec:
  "(buildFingerprintWith minSamples samples = None) = (length samples < minSamples)
   \<and> (minSamples \<le> length samples \<longrightarrow> samples \<noteq> [] \<longrightarrow>
        buildFingerprintWith minSamples samples =
          Some \<lparr>pitchAvg = mean (map pitch samples),
                pitchVar = population_variance (map pitch samples),
                centroidAvg = mean (map centroid samples),
                centroidVar = population_variance (map centroid samples)\<rparr>)
   \<and> buildFingerprint samples = buildFingerprintWith 5 samples"
  by (simp add: buildFingerprintWith_def buildFingerprint_def VOICE_PROFILE_MIN_SAMPLES_def
      Let_def mean_def population_variance_def foldl_plus_sum_list foldl_sq_sum_list)

theorem buildFingerprint_spec_witness:
  "(3::nat) \<le> length [\<lparr>pitch = 100, centroid = 1000\<rparr>, \<lparr>pitch = 110, centroid = 1200\<rparr>,
      \<lparr>pitch = 120, centroid = 1100\<rparr>]
   \<and> buildFingerprintWith 3 [\<lparr>pitch = 100, centroid = 1000\<rparr>, \<lparr>pitch = 110, centroid = 1200\<rparr>,
      \<lparr>pitch = 120, centroid = 1100\<rparr>] =
     Some \<lparr>pitchAvg = 110, pitchVar = 200 / 3, centroidAvg = 1100, centroidVar = 20000 / 3\<rparr>"
  using buildFingerprint_spec [of 3 "[\<lparr>pitch = 100, centroid = 1000\<rparr>,
      \<lparr>pitch = 110, centroid = 1200\<rparr>, \<lparr>pitch = 120, centroid = 1100\<rparr>]"]
  by (simp add: mean_def population_variance_def)

section \<open>Sensitivity and threshold\<close>

text \<open>
  Claim C3, as stated, at the two ends of the slider: the threshold for sensitivity 100 is
  not lower than the threshold for sensitivity 0.
\<close>

theorem threshold_counterexample:
  "\<not> getSpeakerDifferThreshold (initialState\<lparr>speakerSensitivity := 100\<rparr>)
      < getSpeakerDifferThreshold (initialState\<lparr>speakerSensitivity := 0\<rparr>)"
  by (simp add: getSpeakerDifferThreshold_def)

text \<open>
  Claim C3, amended. Raising the sensitivity strictly raises the differ threshold; the
  threshold is \<open>0.05 + 0.0045 * sensitivity\<close>, and the sensitivities from 0 to 100 are
  mapped onto the thresholds from 0.05 to 0.50.
\<close>

theorem getSpeakerDifferThreshold_increasing:
  "(speakerSensitivity st1 < speakerSensitivity st2 \<longrightarrow>
      getSpeakerDifferThreshold st1 < getSpeakerDifferThreshold st2)
   \<and> getSpeakerDifferThreshold st = 0.05 + 0.0045 * speakerSensitivity st
   \<and> (\<lambda>s. getSpeakerDifferThreshold (st\<lparr>speakerSensitivity := s\<rparr>)) ` {0..100} = {0.05..0.5}"
proof -
  have lin: "getSpeakerDifferThreshold st' = 0.05 + 0.0045 * speakerSensitivity st'" for st'
    by (simp add: getSpeakerDifferThreshold_def)
  have mono: "speakerSensitivity st1 < speakerSensitivity st2 \<longrightarrow>
      getSpeakerDifferThreshold st1 < getSpeakerDifferThreshold st2"
    by (simp add: lin)
  have onto: "(\<lambda>s. getSpeakerDifferThreshold (st\<lparr>speakerSensitivity := s\<rparr>)) ` {0..100} = {0.05..0.5}"
  proof (intro equalityI subsetI)
    fix y assume "y \<in> (\<lambda>s. getSpeakerDifferThreshold (st\<lparr>speakerSensitivity := s\<rparr>)) ` {0..100}"
    then show "y \<in> {0.05..0.5}" by (auto simp: lin)
  next
    fix y :: real assume y: "y \<in> {0.05..0.5}"
    have "y = getSpeakerDifferThreshold (st\<lparr>speakerSensitivity := (y - 0.05) / 0.0045\<rparr>)"
      by (simp add: lin field_simps)
    moreover have "(y - 0.05) / 0.0045 \<in> {0..100}"
      using y by (simp add: field_simps)
    ultimately show "y \<in> (\<lambda>s. getSpeakerDifferThreshold (st\<lparr>speakerSensitivity := s\<rparr>)) ` {0..100}"
      by (rule image_eqI)
  qed
  show ?thesis using lin mono onto by blast
qed

theorem getSpeakerDifferThreshold_increasing_witness:
  "speakerSensitivity initialState < speakerSensitivity (initialState\<lparr>speakerSensitivity := 50\<rparr>)
   \<and> getSpeakerDifferThreshold initialState = 0.1175
   \<and> getSpeakerDifferThreshold (initialState\<lparr>speakerSensitivity := 50\<rparr>) = 0.275
   \<and> getSpeakerDifferThreshold initialState
       < getSpeakerDifferThreshold (initialState\<lparr>speakerSensitivity := 50\<rparr>)"
  using getSpeakerDifferThreshold_increasing
    [of initialState "initialState\<lparr>speakerSensitivity := 50\<rparr>" initialState]
  by (simp add: initialState_def getSpeakerDifferThreshold_def)

section \<open>The session with two voices, computed\<close>

lemmas detect_defs =
  detectSpeakerChange_def onSilenceGap_def silenceGap_def analysePending_def
  SPEAKER_ANALYSIS_THRESHOLD_def VOICE_PROFILE_MIN_SAMPLES_def buildFingerprint_def
  buildFingerprintWith_def updateSpeakerProfile_def startVoiceSampling_def
  stopVoiceSampling_def compareFingerprints_def getSpeakerDifferThreshold_def
  Object_entries_def Object_keys_def saveSpeakerProfiles_def collectVoiceSample_def
  sampleA_def sampleB_def Let_def

lemma started_eq:
  "started =
    \<lparr>currentSpeakerId = 0, speakerColorMap = [], nextColorIndex = 0,
     lastSpeechTime = None, speakerCount = 1, speakerProfiles = [],
     voiceSampleBuffer = [], voiceSampleTimer = False, speakerNames = [],
     pendingAnalysis = False, speakerSensitivity = 15, localStorage = None, savedSpeakersList = []\<rparr>"
  by (simp add: started_def pageLoad_def renderSavedSpeakers_def resetSpeakerState_def
      initialState_def loadSpeakerProfiles_def stopVoiceSampling_def)

lemma firstWords_eq:
  "firstWords =
    \<lparr>currentSpeakerId = 0, speakerColorMap = [], nextColorIndex = 0,
     lastSpeechTime = Some 1000, speakerCount = 1, speakerProfiles = [],
     voiceSampleBuffer = [], voiceSampleTimer = False, speakerNames = [],
     pendingAnalysis = False, speakerSensitivity = 15, localStorage = None, savedSpeakersList = []\<rparr>"
  by (simp add: firstWords_def started_eq detect_defs)

lemma afterPause_eq:
  "afterPause =
    \<lparr>currentSpeakerId = 0, speakerColorMap = [], nextColorIndex = 0,
     lastSpeechTime = Some 4000, speakerCount = 1, speakerProfiles = [],
     voiceSampleBuffer = [], voiceSampleTimer = True, speakerNames = [],
     pendingAnalysis = True, speakerSensitivity = 15, localStorage = None, savedSpeakersList = []\<rparr>"
  by (simp add: afterPause_def firstWords_eq detect_defs)

lemma hearingA_eq:
  "hearingA =
    \<lparr>currentSpeakerId = 0, speakerColorMap = [], nextColorIndex = 0,
     lastSpeechTime = Some 4000, speakerCount = 1, speakerProfiles = [],
     voiceSampleBuffer = [sampleA, sampleA, sampleA, sampleA, sampleA],
     voiceSampleTimer = True, speakerNames = [],
     pendingAnalysis = True, speakerSensitivity = 15, localStorage = None, savedSpeakersList = []\<rparr>"
  by (simp add: hearingA_def afterPause_eq collectVoiceSample_def sampleA_def)

lemma keptA_eq:
  "keptA =
    \<lparr>currentSpeakerId = 0, speakerColorMap = [], nextColorIndex = 0,
     lastSpeechTime = Some 4500, speakerCount = 1, speakerProfiles = [],
     voiceSampleBuffer = [sampleA, sampleA, sampleA, sampleA, sampleA],
     voiceSampleTimer = True, speakerNames = [],
     pendingAnalysis = False, speakerSensitivity = 15, localStorage = None, savedSpeakersList = []\<rparr>"
  by (simp add: keptA_def hearingA_eq detect_defs)

lemma secondPause_eq:
  "secondPause =
    \<lparr>currentSpeakerId = 0, speakerColorMap = [], nextColorIndex = 0,
     lastSpeechTime = Some 8000, speakerCount = 1,
     speakerProfiles =
       [(0, \<lparr>pitchAvg = 120, pitchVar = 0, centroidAvg = 800, centroidVar = 0,
              sampleCount = 1\<rparr>)],
     voiceSampleBuffer = [], voiceSampleTimer = True, speakerNames = [],
     pendingAnalysis = True, speakerSensitivity = 15, localStorage = None, savedSpeakersList = []\<rparr>"
  by (simp add: secondPause_def keptA_eq detect_defs)

lemma hearingB_eq:
  "hearingB =
    \<lparr>currentSpeakerId = 0, speakerColorMap = [], nextColorIndex = 0,
     lastSpeechTime = Some 8000, speakerCount = 1,
     speakerProfiles =
       [(0, \<lparr>pitchAvg = 120, pitchVar = 0, centroidAvg = 800, centroidVar = 0,
              sampleCount = 1\<rparr>)],
     voiceSampleBuffer = [sampleB, sampleB, sampleB, sampleB, sampleB],
     voiceSampleTimer = True, speakerNames = [],
     pendingAnalysis = True, speakerSensitivity = 15, localStorage = None, savedSpeakersList = []\<rparr>"
  by (simp add: hearingB_def secondPause_eq collectVoiceSample_def sampleB_def)

lemma mintedB_eq:
  "mintedB =
    \<lparr>currentSpeakerId = 1, speakerColorMap = [], nextColorIndex = 0,
     lastSpeechTime = Some 8500, speakerCount = 2,
     speakerProfiles =
       [(0, \<lparr>pitchAvg = 120, pitchVar = 0, centroidAvg = 800, centroidVar = 0,
              sampleCount = 1\<rparr>)],
     voiceSampleBuffer = [sampleB, sampleB, sampleB, sampleB, sampleB],
     voiceSampleTimer = True, speakerNames = [],
     pendingAnalysis = False, speakerSensitivity = 15, localStorage = None, savedSpeakersList = []\<rparr>"
  by (simp add: mintedB_def hearingB_eq detect_defs)

lemma thirdPause_eq:
  "thirdPause =
    \<lparr>currentSpeakerId = 1, speakerColorMap = [], nextColorIndex = 0,
     lastSpeechTime = Some 12000, speakerCount = 2,
     speakerProfiles =
       [(0, \<lparr>pitchAvg = 120, pitchVar = 0, centroidAvg = 800, centroidVar = 0,
              sampleCount = 1\<rparr>),
        (1, \<lparr>pitchAvg = 220, pitchVar = 0, centroidAvg = 2500, centroidVar = 0,
              sampleCount = 1\<rparr>)],
     voiceSampleBuffer = [], voiceSampleTimer = True, speakerNames = [],
     pendingAnalysis = True, speakerSensitivity = 15, localStorage = None, savedSpeakersList = []\<rparr>"
  by (simp add: thirdPause_def mintedB_eq detect_defs)

lemma stopped_eq:
  "stopped =
    \<lparr>currentSpeakerId = 1, speakerColorMap = [], nextColorIndex = 0,
     lastSpeechTime = Some 12000, speakerCount = 2,
     speakerProfiles =
       [(0, \<lparr>pitchAvg = 120, pitchVar = 0, centroidAvg = 800, centroidVar = 0,
              sampleCount = 1\<rparr>),
        (1, \<lparr>pitchAvg = 220, pitchVar = 0, centroidAvg = 2500, centroidVar = 0,
              sampleCount = 1\<rparr>)],
     voiceSampleBuffer = [], voiceSampleTimer = False, speakerNames = [],
     pendingAnalysis = True, speakerSensitivity = 15,
     localStorage = Some
       \<lparr>saved_profiles =
          [(0, \<lparr>pitchAvg = 120, pitchVar = 0, centroidAvg = 800, centroidVar = 0,
                 sampleCount = 1\<rparr>),
           (1, \<lparr>pitchAvg = 220, pitchVar = 0, centroidAvg = 2500, centroidVar = 0,
                 sampleCount = 1\<rparr>)],
        saved_names = [], saved_colorMap = [], saved_nextColorIndex = 0,
        saved_speakerCount = 2\<rparr>,
     savedSpeakersList = [0, 1]\<rparr>"
  by (simp add: stopped_def thirdPause_eq stopListening_def renderSavedSpeakers_def
      loadSpeakerProfiles_def detect_defs)

lemma deletedA_eq:
  "deletedA =
    \<lparr>currentSpeakerId = 1, speakerColorMap = [], nextColorIndex = 0,
     lastSpeechTime = Some 12000, speakerCount = 2,
     speakerProfiles =
       [(1, \<lparr>pitchAvg = 220, pitchVar = 0, centroidAvg = 2500, centroidVar = 0,
              sampleCount = 1\<rparr>)],
     voiceSampleBuffer = [], voiceSampleTimer = False, speakerNames = [],
     pendingAnalysis = True, speakerSensitivity = 15,
     localStorage = Some
       \<lparr>saved_profiles =
          [(1, \<lparr>pitchAvg = 220, pitchVar = 0, centroidAvg = 2500, centroidVar = 0,
                 sampleCount = 1\<rparr>)],
        saved_names = [], saved_colorMap = [], saved_nextColorIndex = 0,
        saved_speakerCount = 2\<rparr>,
     savedSpeakersList = [1]\<rparr>"
  by (simp add: deletedA_def stopped_eq deleteSavedSpeaker_def saveSpeakerProfiles_def
      renderSavedSpeakers_def loadSpeakerProfiles_def Object_entries_def Object_keys_def
      AList.delete_eq)

section \<open>Updating a profile\<close>

lemma renderSavedSpeakers_keeps [simp]:
  "speakerProfiles (renderSavedSpeakers st) = speakerProfiles st"
  "currentSpeakerId (renderSavedSpeakers st) = currentSpeakerId st"
  "speakerCount (renderSavedSpeakers st) = speakerCount st"
  "localStorage (renderSavedSpeakers st) = localStorage st"
  by (simp_all add: renderSavedSpeakers_def split: option.splits)

lemma speakerProfiles_save [simp]:
  "speakerProfiles (saveSpeakerProfiles st) = speakerProfiles st"
  by (simp add: saveSpeakerProfiles_def)

lemma updateSpeakerProfile_absent: "updateSpeakerProfile speakerId None st = st"
  by (simp add: updateSpeakerProfile_def)

lemma updateSpeakerProfile_new:
  "map_of (speakerProfiles st) speakerId = None \<Longrightarrow>
   map_of (speakerProfiles (updateSpeakerProfile speakerId (Some fp) st)) =
     (map_of (speakerProfiles st))(speakerId \<mapsto>
        \<lparr>pitchAvg = pitchAvg fp, pitchVar = pitchVar fp, centroidAvg = centroidAvg fp,
         centroidVar = centroidVar fp, sampleCount = 1\<rparr>)"
  by (simp add: updateSpeakerProfile_def update_conv')

lemma updateSpeakerProfile_existing:
  "map_of (speakerProfiles st) speakerId = Some e \<Longrightarrow>
   map_of (speakerProfiles (updateSpeakerProfile speakerId (Some fp) st)) =
     (map_of (speakerProfiles st))(speakerId \<mapsto>
        \<lparr>pitchAvg = pitchAvg e * (1 - min 0.3 (1 / (real (sampleCount e) + 1)))
                     + pitchAvg fp * min 0.3 (1 / (real (sampleCount e) + 1)),
         pitchVar = pitchVar e * (1 - min 0.3 (1 / (real (sampleCount e) + 1)))
                     + pitchVar fp * min 0.3 (1 / (real (sampleCount e) + 1)),
         centroidAvg = centroidAvg e * (1 - min 0.3 (1 / (real (sampleCount e) + 1)))
                     + centroidAvg fp * min 0.3 (1 / (real (sampleCount e) + 1)),
         centroidVar = centroidVar e * (1 - min 0.3 (1 / (real (sampleCount e) + 1)))
                     + centroidVar fp * min 0.3 (1 / (real (sampleCount e) + 1)),
         sampleCount = sampleCount e + 1\<rparr>)"
  by (simp add: updateSpeakerProfile_def update_conv' Let_def)

text \<open>
  Claim C5. \<open>updateSpeakerProfile\<close> changes nothing when the fingerprint is absent;
  for an id without a profile it stores the four fields of the fingerprint with count 1;
  for an id with a profile it replaces each of the four fields by
  \<open>old * (1 - alpha) + new * alpha\<close>, with the one
  \<open>alpha = min 0.3 (1 / (sampleCount + 1))\<close>, and adds 1 to the count. The other
  profiles stay as they are.
\<close>

theorem updateSpeakerProfile_spec:
  "updateSpeakerProfile speakerId None st = st
   \<and> (map_of (speakerProfiles st) speakerId = None \<longrightarrow>
        map_of (speakerProfiles (updateSpeakerProfile speakerId (Some fp) st)) =
          (map_of (speakerProfiles st))(speakerId \<mapsto>
            \<lparr>pitchAvg = pitchAvg fp, pitchVar = pitchVar fp, centroidAvg = centroidAvg fp,
             centroidVar = centroidVar fp, sampleCount = 1\<rparr>))
   \<and> (\<forall>e alpha. map_of (speakerProfiles st) speakerId = Some e
          \<and> alpha = min 0.3 (1 / (real (sampleCount e) + 1)) \<longrightarrow>
        map_of (speakerProfiles (updateSpeakerProfile speakerId (Some fp) st)) =
          (map_of (speakerProfiles st))(speakerId \<mapsto>
            \<lparr>pitchAvg = pitchAvg e * (1 - alpha) + pitchAvg fp * alpha,
             pitchVar = pitchVar e * (1 - alpha) + pitchVar fp * alpha,
             centroidAvg = centroidAvg e * (1 - alpha) + centroidAvg fp * alpha,
             centroidVar = centroidVar e * (1 - alpha) + centroidVar fp * alpha,
             sampleCount = sampleCount e + 1\<rparr>))"
  using updateSpeakerProfile_absent updateSpeakerProfile_new updateSpeakerProfile_existing
  by blast

theorem updateSpeakerProfile_spec_witness:
  "map_of (speakerProfiles initialState) 0 = None
   \<and> map_of (speakerProfiles (updateSpeakerProfile 0 (Some voiceA) initialState)) 0 = Some profileA
   \<and> map_of (speakerProfiles (initialState\<lparr>speakerProfiles := [(0, profileA)]\<rparr>)) 0 = Some profileA
   \<and> map_of (speakerProfiles (updateSpeakerProfile 0 (Some voiceB)
         (initialState\<lparr>speakerProfiles := [(0, profileA)]\<rparr>))) 0 =
       Some \<lparr>pitchAvg = 150, pitchVar = 3.1, centroidAvg = 1310, centroidVar = 11.1,
             sampleCount = 2\<rparr>"
proof -
  have new: "map_of (speakerProfiles initialState) 0 = None"
    by (simp add: initialState_def)
  have old: "map_of (speakerProfiles (initialState\<lparr>speakerProfiles := [(0, profileA)]\<rparr>)) 0
      = Some profileA"
    by simp
  have alpha: "(3 / 10 :: real) = min 0.3 (1 / (real (sampleCount profileA) + 1))"
    by (simp add: profileA_def)
  show ?thesis
    using new old
      updateSpeakerProfile_spec [of 0 initialState voiceA, THEN conjunct2, THEN conjunct1,
        rule_format, OF new]
      updateSpeakerProfile_spec [of 0 "initialState\<lparr>speakerProfiles := [(0, profileA)]\<rparr>" voiceB,
        THEN conjunct2, THEN conjunct2, rule_format, OF conjI, OF old alpha]
    by (simp add: voiceA_def voiceB_def profileA_def)
qed

lemma ewma_alpha_range:
  "0 < min 0.3 (1 / (real n + 1)) \<and> min 0.3 (1 / (real n + 1)) \<le> (0.3::real)"
  by (simp add: min_def)

lemma convex_between:
  fixes a b t :: real
  assumes "0 < t" "t < 1"
  shows "min a b \<le> a * (1 - t) + b * t \<and> a * (1 - t) + b * t \<le> max a b"
proof -
  define c where "c = a * (1 - t) + b * t"
  have fromA: "c = a + t * (b - a)"
    by (simp add: c_def algebra_simps)
  have fromB: "c = b - (1 - t) * (b - a)"
    by (simp add: c_def algebra_simps)
  have "min a b \<le> c \<and> c \<le> max a b"
  proof (cases "a \<le> b")
    case le: True
    have "0 \<le> t * (b - a)" and "0 \<le> (1 - t) * (b - a)"
      using le assms by simp_all
    then have "a \<le> c" and "c \<le> b"
      by (simp add: fromA, simp add: fromB)
    then show ?thesis using le by (simp add: min_def max_def)
  next
    case gt: False
    have "t * (b - a) \<le> 0" and "(1 - t) * (b - a) \<le> 0"
      using gt assms by (simp_all add: mult_nonneg_nonpos)
    then have "b \<le> c" and "c \<le> a"
      by (simp add: fromB, simp add: fromA)
    then show ?thesis using gt by (simp add: min_def max_def)
  qed
  then show ?thesis by (simp add: c_def)
qed

lemma convex_nonneg:
  fixes a b t :: real
  shows "0 < t \<Longrightarrow> t < 1 \<Longrightarrow> 0 \<le> a \<Longrightarrow> 0 \<le> b \<Longrightarrow> 0 \<le> a * (1 - t) + b * t"
  by simp

text \<open>
  Claim C10. When an existing profile is updated with a present fingerprint, the learning
  rate is above 0 and at most 0.3, each of the four new fields is that convex combination
  of the old field and the fingerprint's field and so lies between the two, and the fields
  stay nonnegative when the old and the incoming ones are.
\<close>

theorem ewma_convex:
  assumes "map_of (speakerProfiles st) speakerId = Some e"
  shows "\<exists>alpha e'. 0 < alpha \<and> alpha \<le> 0.3
     \<and> alpha = min 0.3 (1 / (real (sampleCount e) + 1))
     \<and> map_of (speakerProfiles (updateSpeakerProfile speakerId (Some fp) st)) speakerId = Some e'
     \<and> pitchAvg e' = pitchAvg e * (1 - alpha) + pitchAvg fp * alpha
     \<and> pitchVar e' = pitchVar e * (1 - alpha) + pitchVar fp * alpha
     \<and> centroidAvg e' = centroidAvg e * (1 - alpha) + centroidAvg fp * alpha
     \<and> centroidVar e' = centroidVar e * (1 - alpha) + centroidVar fp * alpha
     \<and> min (pitchAvg e) (pitchAvg fp) \<le> pitchAvg e' \<and> pitchAvg e' \<le> max (pitchAvg e) (pitchAvg fp)
     \<and> min (pitchVar e) (pitchVar fp) \<le> pitchVar e' \<and> pitchVar e' \<le> max (pitchVar e) (pitchVar fp)
     \<and> min (centroidAvg e) (centroidAvg fp) \<le> centroidAvg e'
     \<and> centroidAvg e' \<le> max (centroidAvg e) (centroidAvg fp)
     \<and> min (centroidVar e) (centroidVar fp) \<le> centroidVar e'
     \<and> centroidVar e' \<le> max (centroidVar e) (centroidVar fp)
     \<and> (0 \<le> pitchAvg e \<and> 0 \<le> pitchVar e \<and> 0 \<le> centroidAvg e \<and> 0 \<le> centroidVar e
         \<and> 0 \<le> pitchAvg fp \<and> 0 \<le> pitchVar fp \<and> 0 \<le> centroidAvg fp \<and> 0 \<le> centroidVar fp
        \<longrightarrow> 0 \<le> pitchAvg e' \<and> 0 \<le> pitchVar e' \<and> 0 \<le> centroidAvg e' \<and> 0 \<le> centroidVar e')"
proof -
  define alpha :: real where "alpha = min 0.3 (1 / (real (sampleCount e) + 1))"
  define e' where "e' = the (map_of (speakerProfiles (updateSpeakerProfile speakerId (Some fp) st)) speakerId)"
  have range: "0 < alpha" "alpha \<le> 0.3" "alpha < 1"
    using ewma_alpha_range [of "sampleCount e"] by (simp_all add: alpha_def)
  have stored: "map_of (speakerProfiles (updateSpeakerProfile speakerId (Some fp) st)) speakerId = Some e'"
    unfolding e'_def by (simp add: updateSpeakerProfile_existing [OF assms])
  have fields:
    "pitchAvg e' = pitchAvg e * (1 - alpha) + pitchAvg fp * alpha"
    "pitchVar e' = pitchVar e * (1 - alpha) + pitchVar fp * alpha"
    "centroidAvg e' = centroidAvg e * (1 - alpha) + centroidAvg fp * alpha"
    "centroidVar e' = centroidVar e * (1 - alpha) + centroidVar fp * alpha"
    unfolding e'_def alpha_def by (simp_all add: updateSpeakerProfile_existing [OF assms])
  have between:
    "min (pitchAvg e) (pitchAvg fp) \<le> pitchAvg e' \<and> pitchAvg e' \<le> max (pitchAvg e) (pitchAvg fp)"
    "min (pitchVar e) (pitchVar fp) \<le> pitchVar e' \<and> pitchVar e' \<le> max (pitchVar e) (pitchVar fp)"
    "min (centroidAvg e) (centroidAvg fp) \<le> centroidAvg e'
       \<and> centroidAvg e' \<le> max (centroidAvg e) (centroidAvg fp)"
    "min (centroidVar e) (centroidVar fp) \<le> centroidVar e'
       \<and> centroidVar e' \<le> max (centroidVar e) (centroidVar fp)"
    unfolding fields using convex_between [OF range(1) range(3)] by blast+
  have nonneg: "0 \<le> pitchAvg e \<and> 0 \<le> pitchVar e \<and> 0 \<le> centroidAvg e \<and> 0 \<le> centroidVar e
         \<and> 0 \<le> pitchAvg fp \<and> 0 \<le> pitchVar fp \<and> 0 \<le> centroidAvg fp \<and> 0 \<le> centroidVar fp
        \<longrightarrow> 0 \<le> pitchAvg e' \<and> 0 \<le> pitchVar e' \<and> 0 \<le> centroidAvg e' \<and> 0 \<le> centroidVar e'"
    unfolding fields using convex_nonneg [OF range(1) range(3)] by blast
  show ?thesis
    using range(1,2) alpha_def stored fields between nonneg by blast
qed


theorem ewma_convex_witness:
  "map_of (speakerProfiles (initialState\<lparr>speakerProfiles := [(0, profileA)]\<rparr>)) 0 = Some profileA
   \<and> (\<exists>e'. map_of (speakerProfiles (updateSpeakerProfile 0 (Some voiceB)
         (initialState\<lparr>speakerProfiles := [(0, profileA)]\<rparr>))) 0 = Some e'
       \<and> 120 \<le> pitchAvg e' \<and> pitchAvg e' \<le> 220 \<and> 800 \<le> centroidAvg e' \<and> centroidAvg e' \<le> 2500)"
proof -
  have old: "map_of (speakerProfiles (initialState\<lparr>speakerProfiles := [(0, profileA)]\<rparr>)) 0
      = Some profileA"
    by simp
  show ?thesis
    using old ewma_convex [OF old, of voiceB]
    by (auto simp: voiceA_def voiceB_def profileA_def)
qed

section \<open>The sample count of a profile\<close>

lemma keepsCounts_same:
  "speakerProfiles st' = speakerProfiles st \<Longrightarrow> keepsCounts st st'"
  by (simp add: keepsCounts_def)

lemma keepsCounts_cong:
  "speakerProfiles st'' = speakerProfiles st' \<Longrightarrow> keepsCounts st st' \<Longrightarrow> keepsCounts st st''"
  by (simp add: keepsCounts_def)

lemma keepsCounts_update: "keepsCounts st (updateSpeakerProfile speakerId fingerprint st)"
proof (cases fingerprint)
  case None
  then show ?thesis by (simp add: updateSpeakerProfile_absent keepsCounts_def)
next
  case (Some fp)
  show ?thesis
  proof (cases "map_of (speakerProfiles st) speakerId")
    case None
    show ?thesis
      unfolding keepsCounts_def Some updateSpeakerProfile_new [OF None]
      using None by auto
  next
    case (Some e)
    show ?thesis
      unfolding keepsCounts_def \<open>fingerprint = Some fp\<close> updateSpeakerProfile_existing [OF Some]
      using Some by auto
  qed
qed

lemma speakerProfiles_analysePending [simp]:
  "speakerProfiles (analysePending st) = speakerProfiles st"
  by (simp add: analysePending_def Let_def split: option.splits prod.splits)

lemma speakerProfiles_onSilenceGap:
  "speakerProfiles (onSilenceGap now st) = speakerProfiles st
   \<or> speakerProfiles (onSilenceGap now st) =
      speakerProfiles (updateSpeakerProfile (currentSpeakerId st)
        (buildFingerprint (voiceSampleBuffer st)) st)"
  by (simp add: onSilenceGap_def Let_def startVoiceSampling_def stopVoiceSampling_def)

lemma keepsCounts_detect: "keepsCounts st (snd (detectSpeakerChange now st))"
proof -
  have "speakerProfiles (snd (detectSpeakerChange now st)) = speakerProfiles (onSilenceGap now st)"
    by (simp add: detectSpeakerChange_def Let_def)
  then show ?thesis
    using speakerProfiles_onSilenceGap [of now st] keepsCounts_update keepsCounts_same
    by (metis keepsCounts_cong)
qed

lemma keepsCounts_collect: "keepsCounts st (collectVoiceSample p c st)"
  by (rule keepsCounts_same) (simp add: collectVoiceSample_def)

lemma keepsCounts_color: "keepsCounts st (snd (getSpeakerColor speakerId st))"
  by (rule keepsCounts_same) (simp add: getSpeakerColor_def Let_def)

lemma keepsCounts_stop: "keepsCounts st (stopListening st)"
proof -
  have "speakerProfiles (stopListening st) =
      speakerProfiles (updateSpeakerProfile (currentSpeakerId st)
        (buildFingerprint (voiceSampleBuffer st)) (stopVoiceSampling st))"
    by (simp add: stopListening_def Let_def stopVoiceSampling_def)
  moreover have "keepsCounts (stopVoiceSampling st) (updateSpeakerProfile (currentSpeakerId st)
        (buildFingerprint (voiceSampleBuffer st)) (stopVoiceSampling st))"
    by (rule keepsCounts_update)
  ultimately show ?thesis
    by (simp add: keepsCounts_def stopVoiceSampling_def)
qed

text \<open>
  Claim C7, as stated, at a call with an absent fingerprint: in the session with two
  voices, right after the second pause, the buffer is empty and no fingerprint is built
  from it; the call that a further pause would make leaves the profile of speaker 0 at
  count 1.
\<close>

theorem sampleCount_counterexample:
  "map_of (speakerProfiles secondPause) 0 =
     Some \<lparr>pitchAvg = 120, pitchVar = 0, centroidAvg = 800, centroidVar = 0, sampleCount = 1\<rparr>
   \<and> buildFingerprint (voiceSampleBuffer secondPause) = None
   \<and> map_of (speakerProfiles
        (updateSpeakerProfile 0 (buildFingerprint (voiceSampleBuffer secondPause)) secondPause)) 0 =
     Some \<lparr>pitchAvg = 120, pitchVar = 0, centroidAvg = 800, centroidVar = 0, sampleCount = 1\<rparr>"
  by (simp add: secondPause_eq updateSpeakerProfile_def buildFingerprint_def
      buildFingerprintWith_def VOICE_PROFILE_MIN_SAMPLES_def)

text \<open>
  Claim C7, amended. A call of \<open>updateSpeakerProfile\<close> with a present fingerprint adds
  exactly 1 to the count of the profile it is called on; and no call of
  \<open>updateSpeakerProfile\<close> (with or without a fingerprint), no speech event, no sample,
  no colour assignment and no stop of the session removes a profile or lowers its count.
\<close>

theorem sampleCount_grows:
  "(\<forall>e. map_of (speakerProfiles st) speakerId = Some e \<longrightarrow>
      (\<exists>e'. map_of (speakerProfiles (updateSpeakerProfile speakerId (Some fp) st)) speakerId = Some e'
         \<and> sampleCount e' = sampleCount e + 1))
   \<and> keepsCounts st (updateSpeakerProfile speakerId fingerprint st)
   \<and> keepsCounts st (snd (detectSpeakerChange now st))
   \<and> keepsCounts st (collectVoiceSample p c st)
   \<and> keepsCounts st (snd (getSpeakerColor speakerId st))
   \<and> keepsCounts st (stopListening st)"
proof -
  have "\<forall>e. map_of (speakerProfiles st) speakerId = Some e \<longrightarrow>
      (\<exists>e'. map_of (speakerProfiles (updateSpeakerProfile speakerId (Some fp) st)) speakerId = Some e'
         \<and> sampleCount e' = sampleCount e + 1)"
    by (simp add: updateSpeakerProfile_existing)
  then show ?thesis
    using keepsCounts_update keepsCounts_detect keepsCounts_collect keepsCounts_color
      keepsCounts_stop by blast
qed


theorem sampleCount_grows_witness:
  "map_of (speakerProfiles (initialState\<lparr>speakerProfiles := [(0, profileA)]\<rparr>)) 0 = Some profileA
   \<and> (\<exists>e'. map_of (speakerProfiles (updateSpeakerProfile 0 (Some voiceB)
         (initialState\<lparr>speakerProfiles := [(0, profileA)]\<rparr>))) 0 = Some e'
       \<and> sampleCount e' = 2)"
proof -
  have old: "map_of (speakerProfiles (initialState\<lparr>speakerProfiles := [(0, profileA)]\<rparr>)) 0
      = Some profileA"
    by simp
  show ?thesis
    using old sampleCount_grows [of "initialState\<lparr>speakerProfiles := [(0, profileA)]\<rparr>" 0 voiceB,
        THEN conjunct1, rule_format, OF old]
    by (auto simp: profileA_def)
qed

section \<open>Colour assignment\<close>

lemma length_SPEAKER_COLORS: "length SPEAKER_COLORS = 8"
  by (simp add: SPEAKER_COLORS_def)

lemma getSpeakerColor_first:
  assumes "colorIndex st speakerId = None"
  shows "colorIndex (snd (getSpeakerColor speakerId st)) =
           (colorIndex st)(speakerId \<mapsto> nextColorIndex st mod 8)"
    and "nextColorIndex (snd (getSpeakerColor speakerId st)) = nextColorIndex st + 1"
    and "fst (getSpeakerColor speakerId st) = Some (SPEAKER_COLORS ! (nextColorIndex st mod 8))"
  using assms
  by (auto simp: getSpeakerColor_def colorIndex_def Let_def update_conv' length_SPEAKER_COLORS
      SPEAKER_COLORS_at_def)

lemma getSpeakerColor_seen:
  assumes "colorIndex st speakerId = Some i"
  shows "snd (getSpeakerColor speakerId st) = st"
    and "fst (getSpeakerColor speakerId st) = SPEAKER_COLORS_at i"
  using assms by (simp_all add: getSpeakerColor_def colorIndex_def Let_def)

lemma getSpeakerColor_keeps:
  assumes "colorIndex st speakerId = Some i"
  shows "colorIndex (snd (getSpeakerColor other st)) speakerId = Some i"
proof (cases "colorIndex st other")
  case None
  then have "other \<noteq> speakerId" using assms by auto
  then show ?thesis using assms by (simp add: getSpeakerColor_first(1) [OF None])
next
  case (Some j)
  then show ?thesis using assms by (simp add: getSpeakerColor_seen(1))
qed

lemma getSpeakerColor_assigned:
  "\<exists>i. colorIndex (snd (getSpeakerColor speakerId st)) speakerId = Some i
       \<and> fst (getSpeakerColor speakerId st) = SPEAKER_COLORS_at i"
proof (cases "colorIndex st speakerId")
  case None
  show ?thesis
    using getSpeakerColor_first [OF None]
    by (simp add: SPEAKER_COLORS_at_def length_SPEAKER_COLORS)
next
  case (Some i)
  then show ?thesis by (simp add: getSpeakerColor_seen)
qed

lemma colorAll_keeps:
  "colorIndex st speakerId = Some i \<Longrightarrow> colorIndex (colorAll ids st) speakerId = Some i"
  by (induction ids arbitrary: st) (simp_all add: getSpeakerColor_keeps)

lemma colorAll_first_seen:
  "distinct ids \<Longrightarrow> \<forall>j \<in> set ids. colorIndex st j = None \<Longrightarrow> k < length ids \<Longrightarrow>
   colorIndex (colorAll ids st) (ids ! k) = Some ((nextColorIndex st + k) mod 8)"
proof (induction ids arbitrary: st k)
  case Nil
  then show ?case by simp
next
  case (Cons a ids)
  let ?st1 = "snd (getSpeakerColor a st)"
  have none: "colorIndex st a = None" using Cons.prems by simp
  show ?case
  proof (cases k)
    case 0
    have "colorIndex ?st1 a = Some (nextColorIndex st mod 8)"
      by (simp add: getSpeakerColor_first(1) [OF none])
    then show ?thesis using 0 by (simp add: colorAll_keeps)
  next
    case (Suc k')
    have rest: "\<forall>j \<in> set ids. colorIndex ?st1 j = None"
      using Cons.prems by (auto simp: getSpeakerColor_first(1) [OF none])
    have "colorIndex (colorAll ids ?st1) (ids ! k') = Some ((nextColorIndex ?st1 + k') mod 8)"
      using Cons.IH [OF _ rest, of k'] Cons.prems Suc by simp
    then show ?thesis using Suc by (simp add: getSpeakerColor_first(2) [OF none])
  qed
qed

text \<open>
  Claim C9. On first sight of an id, \<open>getSpeakerColor\<close> gives it the palette index
  \<open>nextColorIndex mod 8\<close>, adds 1 to \<open>nextColorIndex\<close> and returns that palette
  entry; for an id already in the colour map it changes nothing and returns the entry of
  its index; the index of an id survives every later call, for any ids, so that a later call
  for the same id returns the same colour; distinct ids not yet in the map get the indices
  \<open>(nextColorIndex + k) mod 8\<close> in the order of their first calls; from an empty
  colour map with counter 0, the k-th of distinct ids gets index \<open>k mod 8\<close>, and of 9
  distinct ids the ninth gets index 0, as the first does.
\<close>

theorem getSpeakerColor_spec:
  "(colorIndex st speakerId = None \<longrightarrow>
      colorIndex (snd (getSpeakerColor speakerId st)) speakerId = Some (nextColorIndex st mod 8)
      \<and> nextColorIndex (snd (getSpeakerColor speakerId st)) = nextColorIndex st + 1
      \<and> fst (getSpeakerColor speakerId st) = Some (SPEAKER_COLORS ! (nextColorIndex st mod 8)))
   \<and> (\<forall>i. colorIndex st speakerId = Some i \<longrightarrow>
        snd (getSpeakerColor speakerId st) = st
        \<and> fst (getSpeakerColor speakerId st) = SPEAKER_COLORS_at i)
   \<and> (\<forall>i. colorIndex st speakerId = Some i \<longrightarrow>
        colorIndex (colorAll ids st) speakerId = Some i)
   \<and> fst (getSpeakerColor speakerId (colorAll ids (snd (getSpeakerColor speakerId st))))
        = fst (getSpeakerColor speakerId st)
   \<and> (distinct ids \<and> (\<forall>j \<in> set ids. colorIndex st j = None) \<longrightarrow>
        (\<forall>k < length ids.
           colorIndex (colorAll ids st) (ids ! k) = Some ((nextColorIndex st + k) mod 8)))
   \<and> (distinct ids \<and> speakerColorMap st = [] \<and> nextColorIndex st = 0 \<longrightarrow>
        (\<forall>k < length ids. colorIndex (colorAll ids st) (ids ! k) = Some (k mod 8))
        \<and> (length ids = 9 \<longrightarrow>
             colorIndex (colorAll ids st) (ids ! 8) = Some 0
             \<and> colorIndex (colorAll ids st) (ids ! 0) = Some 0))"
proof -
  have first: "colorIndex st speakerId = None \<longrightarrow>
      colorIndex (snd (getSpeakerColor speakerId st)) speakerId = Some (nextColorIndex st mod 8)
      \<and> nextColorIndex (snd (getSpeakerColor speakerId st)) = nextColorIndex st + 1
      \<and> fst (getSpeakerColor speakerId st) = Some (SPEAKER_COLORS ! (nextColorIndex st mod 8))"
    by (simp add: getSpeakerColor_first)
  have seen: "\<forall>i. colorIndex st speakerId = Some i \<longrightarrow>
        snd (getSpeakerColor speakerId st) = st
        \<and> fst (getSpeakerColor speakerId st) = SPEAKER_COLORS_at i"
    by (simp add: getSpeakerColor_seen)
  have keeps: "\<forall>i. colorIndex st speakerId = Some i \<longrightarrow>
        colorIndex (colorAll ids st) speakerId = Some i"
    by (simp add: colorAll_keeps)
  have again: "fst (getSpeakerColor speakerId (colorAll ids (snd (getSpeakerColor speakerId st))))
        = fst (getSpeakerColor speakerId st)"
  proof -
    obtain i where i: "colorIndex (snd (getSpeakerColor speakerId st)) speakerId = Some i"
      "fst (getSpeakerColor speakerId st) = SPEAKER_COLORS_at i"
      using getSpeakerColor_assigned by blast
    have "colorIndex (colorAll ids (snd (getSpeakerColor speakerId st))) speakerId = Some i"
      by (rule colorAll_keeps [OF i(1)])
    then show ?thesis by (simp add: getSpeakerColor_seen(2) i(2))
  qed
  have unseen: "distinct ids \<and> (\<forall>j \<in> set ids. colorIndex st j = None) \<longrightarrow>
        (\<forall>k < length ids.
           colorIndex (colorAll ids st) (ids ! k) = Some ((nextColorIndex st + k) mod 8))"
    using colorAll_first_seen [of ids st] by blast
  have order: "distinct ids \<and> speakerColorMap st = [] \<and> nextColorIndex st = 0 \<longrightarrow>
        (\<forall>k < length ids. colorIndex (colorAll ids st) (ids ! k) = Some (k mod 8))
        \<and> (length ids = 9 \<longrightarrow>
             colorIndex (colorAll ids st) (ids ! 8) = Some 0
             \<and> colorIndex (colorAll ids st) (ids ! 0) = Some 0)"
  proof (intro impI, elim conjE)
    assume d: "distinct ids" and e: "speakerColorMap st = []" and n: "nextColorIndex st = 0"
    have none: "\<forall>j \<in> set ids. colorIndex st j = None"
      by (simp add: colorIndex_def e)
    have all: "\<forall>k < length ids. colorIndex (colorAll ids st) (ids ! k) = Some (k mod 8)"
      using colorAll_first_seen [OF d none] n by simp
    then show "(\<forall>k < length ids. colorIndex (colorAll ids st) (ids ! k) = Some (k mod 8))
        \<and> (length ids = 9 \<longrightarrow>
             colorIndex (colorAll ids st) (ids ! 8) = Some 0
             \<and> colorIndex (colorAll ids st) (ids ! 0) = Some 0)"
      by auto
  qed
  show ?thesis
    by (intro conjI; fact first seen keeps again unseen order)
qed

theorem getSpeakerColor_spec_witness:
  "distinct [0, 1, 2, 3, 4, 5, 6, 7, 8 :: nat]
   \<and> speakerColorMap (resetSpeakerState initialState) = []
   \<and> nextColorIndex (resetSpeakerState initialState) = 0
   \<and> length [0, 1, 2, 3, 4, 5, 6, 7, 8 :: nat] = 9
   \<and> colorIndex (resetSpeakerState initialState) 3 = None
   \<and> fst (getSpeakerColor 3 (resetSpeakerState initialState)) = Some (SPEAKER_COLORS ! 0)
   \<and> colorIndex (colorAll [0, 1, 2, 3, 4, 5, 6, 7, 8] (resetSpeakerState initialState)) 8 = Some 0
   \<and> colorIndex (colorAll [0, 1, 2, 3, 4, 5, 6, 7, 8] (resetSpeakerState initialState)) 0 = Some 0"
proof -
  let ?st = "resetSpeakerState initialState"
  have empty: "speakerColorMap ?st = []" and zero: "nextColorIndex ?st = 0"
    by (simp_all add: resetSpeakerState_def initialState_def loadSpeakerProfiles_def
        stopVoiceSampling_def Let_def)
  have unseen: "colorIndex ?st 3 = None"
    by (simp add: colorIndex_def empty)
  have d: "distinct [0, 1, 2, 3, 4, 5, 6, 7, 8 :: nat]" by simp
  show ?thesis
    using d empty zero unseen
      getSpeakerColor_spec [of ?st 3 "[0, 1, 2, 3, 4, 5, 6, 7, 8]"]
    by simp
qed

section \<open>The diarization policy: one speech event\<close>

lemma set_Object_keys: "set (Object_keys ob) = fst ` set ob"
  by (simp add: Object_keys_def)

lemma set_Object_entries: "set (Object_entries ob) = {(k, v). map_of ob k = Some v}"
proof -
  have "(k, v) \<in> set (Object_entries ob) \<longleftrightarrow> map_of ob k = Some v" for k v
  proof
    assume "(k, v) \<in> set (Object_entries ob)"
    then have k: "k \<in> fst ` set ob" and v: "v = the (map_of ob k)"
      by (auto simp: Object_entries_def set_Object_keys)
    from k obtain w where "map_of ob k = Some w"
      by (metis map_of_eq_None_iff not_None_eq)
    with v show "map_of ob k = Some v" by simp
  next
    assume m: "map_of ob k = Some v"
    then have "k \<in> fst ` set ob"
      by (metis map_of_eq_None_iff option.distinct(1))
    with m show "(k, v) \<in> set (Object_entries ob)"
      by (force simp: Object_entries_def set_Object_keys)
  qed
  then show ?thesis by auto
qed

lemma compareFingerprints_nonneg: "0 \<le> compareFingerprints a b"
  by (simp add: compareFingerprints_def Let_def split: option.splits)

lemma bestMatchLoop_result:
  assumes "bestMatchLoop fp cur es (bm, bs) = (bm', bs')"
  shows "bs \<le> bs'
    \<and> (\<forall>(i, p) \<in> set es. i \<noteq> cur \<longrightarrow> compareFingerprints (Some fp) (Some p) \<le> bs')
    \<and> ((bm', bs') = (bm, bs)
        \<or> (\<exists>(i, p) \<in> set es. i \<noteq> cur \<and> bm' = int i
              \<and> bs' = compareFingerprints (Some fp) (Some p) \<and> bs < bs'))"
  using assms
proof (induction es arbitrary: bm bs)
  case Nil
  then show ?case by simp
next
  case (Cons e es)
  obtain i p where e: "e = (i, p)" by (cases e)
  let ?score = "compareFingerprints (Some fp) (Some p)"
  show ?case
  proof (cases "i = cur")
    case True
    then have "bestMatchLoop fp cur es (bm, bs) = (bm', bs')"
      using Cons.prems e by simp
    from Cons.IH [OF this] show ?thesis using True e by auto
  next
    case other: False
    show ?thesis
    proof (cases "?score > bs")
      case True
      then have "bestMatchLoop fp cur es (int i, ?score) = (bm', bs')"
        using Cons.prems e other by (simp add: Let_def)
      from Cons.IH [OF this] show ?thesis using True e other by fastforce
    next
      case False
      then have "bestMatchLoop fp cur es (bm, bs) = (bm', bs')"
        using Cons.prems e other by (simp add: Let_def)
      from Cons.IH [OF this] show ?thesis using False e other by fastforce
    qed
  qed
qed

lemma buildFingerprint_Some:
  "VOICE_PROFILE_MIN_SAMPLES \<le> length samples \<Longrightarrow> \<exists>fp. buildFingerprint samples = Some fp"
  by (simp add: buildFingerprint_def buildFingerprintWith_def Let_def)

lemma currentSimilarity_nonneg: "0 \<le> currentSimilarity st fp"
  by (simp add: currentSimilarity_def compareFingerprints_nonneg split: option.splits)

text \<open>What the second conditional does, branch by branch.\<close>

lemma analysePending_skip:
  "\<not> (pendingAnalysis st \<and> VOICE_PROFILE_MIN_SAMPLES \<le> length (voiceSampleBuffer st)) \<Longrightarrow>
   analysePending st = st"
  by (auto simp: analysePending_def)

lemma analysePending_stay:
  assumes "pendingAnalysis st" "VOICE_PROFILE_MIN_SAMPLES \<le> length (voiceSampleBuffer st)"
    and "buildFingerprint (voiceSampleBuffer st) = Some fp"
    and "getSpeakerDifferThreshold st \<le> currentSimilarity st fp"
  shows "analysePending st = st\<lparr>pendingAnalysis := False\<rparr>"
  using assms by (simp add: analysePending_def currentSimilarity_def Let_def)

lemma analysePending_differ:
  assumes "pendingAnalysis st" "VOICE_PROFILE_MIN_SAMPLES \<le> length (voiceSampleBuffer st)"
    and "buildFingerprint (voiceSampleBuffer st) = Some fp"
    and "currentSimilarity st fp < getSpeakerDifferThreshold st"
    and "bestMatchLoop fp (currentSpeakerId st) (Object_entries (speakerProfiles st)) (- 1, 0)
          = (bm, bs)"
  shows "analysePending st =
    (if 0 \<le> bm \<and> getSpeakerDifferThreshold st \<le> bs
     then st\<lparr>currentSpeakerId := nat bm, pendingAnalysis := False\<rparr>
     else st\<lparr>currentSpeakerId := speakerCount st, speakerCount := speakerCount st + 1,
             pendingAnalysis := False\<rparr>)"
  using assms by (simp add: analysePending_def currentSimilarity_def Let_def)

lemma analysePending_cases:
  assumes p: "pendingAnalysis st" and n: "VOICE_PROFILE_MIN_SAMPLES \<le> length (voiceSampleBuffer st)"
    and fp: "buildFingerprint (voiceSampleBuffer st) = Some fp"
    and lt: "currentSimilarity st fp < getSpeakerDifferThreshold st"
  shows "(\<exists>(i, q) \<in> otherProfiles st.
            analysePending st = st\<lparr>currentSpeakerId := i, pendingAnalysis := False\<rparr>
            \<and> getSpeakerDifferThreshold st \<le> compareFingerprints (Some fp) (Some q)
            \<and> (\<forall>(j, r) \<in> otherProfiles st.
                 compareFingerprints (Some fp) (Some r) \<le> compareFingerprints (Some fp) (Some q)))
       \<or> (analysePending st =
             st\<lparr>currentSpeakerId := speakerCount st, speakerCount := speakerCount st + 1,
                pendingAnalysis := False\<rparr>
           \<and> (\<forall>(j, r) \<in> otherProfiles st.
                 compareFingerprints (Some fp) (Some r) < getSpeakerDifferThreshold st))"
proof -
  obtain bm bs where loop:
    "bestMatchLoop fp (currentSpeakerId st) (Object_entries (speakerProfiles st)) (- 1, 0) = (bm, bs)"
    by (cases "bestMatchLoop fp (currentSpeakerId st) (Object_entries (speakerProfiles st)) (- 1, 0)")
  have others: "{(i, q). (i, q) \<in> set (Object_entries (speakerProfiles st)) \<and> i \<noteq> currentSpeakerId st}
      = otherProfiles st"
    by (auto simp: set_Object_entries otherProfiles_def)
  have pos: "0 < getSpeakerDifferThreshold st"
    using lt currentSimilarity_nonneg [of st fp] by linarith
  have res: "(\<forall>(i, q) \<in> otherProfiles st. compareFingerprints (Some fp) (Some q) \<le> bs)
    \<and> ((bm, bs) = (- 1, 0)
        \<or> (\<exists>(i, q) \<in> otherProfiles st. bm = int i \<and> bs = compareFingerprints (Some fp) (Some q)))"
    using bestMatchLoop_result [OF loop] others by fastforce
  note step = analysePending_differ [OF p n fp lt loop]
  show ?thesis
  proof (cases "0 \<le> bm \<and> getSpeakerDifferThreshold st \<le> bs")
    case True
    then have "(bm, bs) \<noteq> (- 1, 0)" by auto
    with res obtain i q where iq: "(i, q) \<in> otherProfiles st" "bm = int i"
      "bs = compareFingerprints (Some fp) (Some q)" by auto
    have "analysePending st = st\<lparr>currentSpeakerId := i, pendingAnalysis := False\<rparr>"
      using step True iq(2) by simp
    moreover have "getSpeakerDifferThreshold st \<le> compareFingerprints (Some fp) (Some q)"
      using True iq(3) by simp
    moreover have "\<forall>(j, r) \<in> otherProfiles st.
        compareFingerprints (Some fp) (Some r) \<le> compareFingerprints (Some fp) (Some q)"
      using res iq(3) by simp
    ultimately show ?thesis using iq(1) by blast
  next
    case False
    have small: "bs < getSpeakerDifferThreshold st"
    proof (cases "(bm, bs) = (- 1, 0)")
      case True
      then show ?thesis using pos by simp
    next
      case False
      with res obtain i where "bm = int i" by auto
      then show ?thesis using \<open>\<not> (0 \<le> bm \<and> getSpeakerDifferThreshold st \<le> bs)\<close> by simp
    qed
    have "analysePending st =
             st\<lparr>currentSpeakerId := speakerCount st, speakerCount := speakerCount st + 1,
                pendingAnalysis := False\<rparr>"
      using step False by simp
    moreover have "\<forall>(j, r) \<in> otherProfiles st.
        compareFingerprints (Some fp) (Some r) < getSpeakerDifferThreshold st"
      using res small by fastforce
    ultimately show ?thesis by blast
  qed
qed

lemma onSilenceGap_none:
  "silenceGap now st \<le> SPEAKER_ANALYSIS_THRESHOLD \<Longrightarrow> onSilenceGap now st = st"
  by (simp add: onSilenceGap_def)

lemma currentSpeakerId_save [simp]:
  "currentSpeakerId (saveSpeakerProfiles st) = currentSpeakerId st"
  and speakerCount_save [simp]: "speakerCount (saveSpeakerProfiles st) = speakerCount st"
  and voiceSampleBuffer_save [simp]: "voiceSampleBuffer (saveSpeakerProfiles st) = voiceSampleBuffer st"
  and pendingAnalysis_save [simp]: "pendingAnalysis (saveSpeakerProfiles st) = pendingAnalysis st"
  by (simp_all add: saveSpeakerProfiles_def)

lemma updateSpeakerProfile_keeps:
  "currentSpeakerId (updateSpeakerProfile i f st) = currentSpeakerId st"
  "speakerCount (updateSpeakerProfile i f st) = speakerCount st"
  "voiceSampleBuffer (updateSpeakerProfile i f st) = voiceSampleBuffer st"
  "pendingAnalysis (updateSpeakerProfile i f st) = pendingAnalysis st"
  by (simp_all add: updateSpeakerProfile_def Let_def split: option.splits)

lemma onSilenceGap_gap:
  assumes "SPEAKER_ANALYSIS_THRESHOLD < silenceGap now st"
  shows "voiceSampleBuffer (onSilenceGap now st) = []"
    and "pendingAnalysis (onSilenceGap now st)"
    and "currentSpeakerId (onSilenceGap now st) = currentSpeakerId st"
    and "speakerCount (onSilenceGap now st) = speakerCount st"
  using assms
  by (simp_all add: onSilenceGap_def Let_def startVoiceSampling_def stopVoiceSampling_def
      updateSpeakerProfile_keeps)

lemma detect_unfold:
  "detectSpeakerChange now st =
     (currentSpeakerId (analysePending (onSilenceGap now st)),
      (analysePending (onSilenceGap now st))\<lparr>lastSpeechTime := Some now\<rparr>)"
  by (simp add: detectSpeakerChange_def Let_def)

lemma MIN_pos: "0 < VOICE_PROFILE_MIN_SAMPLES"
  by (simp add: VOICE_PROFILE_MIN_SAMPLES_def)

text \<open>
  Claim C1. At the second conditional of \<open>detectSpeakerChange\<close>, that is in the state
  \<open>s\<close> left by the silence-gap step, when the analysis is pending and the buffer has
  at least the minimum of samples: a fingerprint is built; if its similarity to the current
  speaker's profile is at least the threshold, the current id is returned and the counter
  stays; otherwise, if some other stored profile scores at least the threshold, the id
  returned is that of an other profile with the highest score, and the counter stays; if
  no other profile scores that much, the id returned is the old \<open>speakerCount\<close>, and
  the counter is one more; without a profile of the current speaker the similarity counts
  as 1, and the current id is returned (for a sensitivity up to 100, where the threshold
  is at most 1). The analysis is no longer pending afterwards.
\<close>

theorem detectSpeakerChange_policy:
  assumes s: "s = onSilenceGap now st"
    and pend: "pendingAnalysis s"
    and enough: "VOICE_PROFILE_MIN_SAMPLES \<le> length (voiceSampleBuffer s)"
  shows "\<exists>fp. buildFingerprint (voiceSampleBuffer s) = Some fp
    \<and> (getSpeakerDifferThreshold s \<le> currentSimilarity s fp \<longrightarrow>
         fst (detectSpeakerChange now st) = currentSpeakerId s
         \<and> speakerCount (snd (detectSpeakerChange now st)) = speakerCount s)
    \<and> (currentSimilarity s fp < getSpeakerDifferThreshold s
        \<and> (\<exists>(i, q) \<in> otherProfiles s.
              getSpeakerDifferThreshold s \<le> compareFingerprints (Some fp) (Some q)) \<longrightarrow>
         (\<exists>(i, q) \<in> otherProfiles s.
             fst (detectSpeakerChange now st) = i
             \<and> getSpeakerDifferThreshold s \<le> compareFingerprints (Some fp) (Some q)
             \<and> (\<forall>(j, r) \<in> otherProfiles s.
                  compareFingerprints (Some fp) (Some r) \<le> compareFingerprints (Some fp) (Some q)))
         \<and> speakerCount (snd (detectSpeakerChange now st)) = speakerCount s)
    \<and> (currentSimilarity s fp < getSpeakerDifferThreshold s
        \<and> (\<forall>(j, r) \<in> otherProfiles s.
              compareFingerprints (Some fp) (Some r) < getSpeakerDifferThreshold s) \<longrightarrow>
         fst (detectSpeakerChange now st) = speakerCount s
         \<and> speakerCount (snd (detectSpeakerChange now st)) = speakerCount s + 1)
    \<and> (map_of (speakerProfiles s) (currentSpeakerId s) = None \<longrightarrow>
         currentSimilarity s fp = 1
         \<and> (speakerSensitivity s \<le> 100 \<longrightarrow>
              fst (detectSpeakerChange now st) = currentSpeakerId s))
    \<and> currentSpeakerId (snd (detectSpeakerChange now st)) = fst (detectSpeakerChange now st)
    \<and> \<not> pendingAnalysis (snd (detectSpeakerChange now st))"
proof -
  obtain fp where fp: "buildFingerprint (voiceSampleBuffer s) = Some fp"
    using buildFingerprint_Some [OF enough] by blast
  let ?thr = "getSpeakerDifferThreshold s"
  let ?d = "detectSpeakerChange now st"
  have d: "?d = (currentSpeakerId (analysePending s), (analysePending s)\<lparr>lastSpeechTime := Some now\<rparr>)"
    by (simp add: detect_unfold s)
  have stay: "?thr \<le> currentSimilarity s fp \<longrightarrow>
         fst ?d = currentSpeakerId s \<and> speakerCount (snd ?d) = speakerCount s"
    by (simp add: d analysePending_stay [OF pend enough fp])
  have differ: "currentSimilarity s fp < ?thr \<Longrightarrow>
    (\<exists>(i, q) \<in> otherProfiles s.
            analysePending s = s\<lparr>currentSpeakerId := i, pendingAnalysis := False\<rparr>
            \<and> ?thr \<le> compareFingerprints (Some fp) (Some q)
            \<and> (\<forall>(j, r) \<in> otherProfiles s.
                 compareFingerprints (Some fp) (Some r) \<le> compareFingerprints (Some fp) (Some q)))
       \<or> (analysePending s =
             s\<lparr>currentSpeakerId := speakerCount s, speakerCount := speakerCount s + 1,
                pendingAnalysis := False\<rparr>
           \<and> (\<forall>(j, r) \<in> otherProfiles s. compareFingerprints (Some fp) (Some r) < ?thr))"
    by (rule analysePending_cases [OF pend enough fp])
  have known: "currentSimilarity s fp < ?thr
        \<and> (\<exists>(i, q) \<in> otherProfiles s. ?thr \<le> compareFingerprints (Some fp) (Some q)) \<longrightarrow>
         (\<exists>(i, q) \<in> otherProfiles s.
             fst ?d = i
             \<and> ?thr \<le> compareFingerprints (Some fp) (Some q)
             \<and> (\<forall>(j, r) \<in> otherProfiles s.
                  compareFingerprints (Some fp) (Some r) \<le> compareFingerprints (Some fp) (Some q)))
         \<and> speakerCount (snd ?d) = speakerCount s"
  proof (intro impI, elim conjE)
    assume lt: "currentSimilarity s fp < ?thr"
      and ex: "\<exists>(i, q) \<in> otherProfiles s. ?thr \<le> compareFingerprints (Some fp) (Some q)"
    from differ [OF lt] ex obtain i q where iq: "(i, q) \<in> otherProfiles s"
      "analysePending s = s\<lparr>currentSpeakerId := i, pendingAnalysis := False\<rparr>"
      "?thr \<le> compareFingerprints (Some fp) (Some q)"
      "\<forall>(j, r) \<in> otherProfiles s.
         compareFingerprints (Some fp) (Some r) \<le> compareFingerprints (Some fp) (Some q)"
      by fastforce
    have "fst ?d = i" and "speakerCount (snd ?d) = speakerCount s"
      by (simp_all add: d iq(2))
    then show "(\<exists>(i, q) \<in> otherProfiles s.
             fst ?d = i
             \<and> ?thr \<le> compareFingerprints (Some fp) (Some q)
             \<and> (\<forall>(j, r) \<in> otherProfiles s.
                  compareFingerprints (Some fp) (Some r) \<le> compareFingerprints (Some fp) (Some q)))
         \<and> speakerCount (snd ?d) = speakerCount s"
      using iq(1,3,4) by blast
  qed
  have new: "currentSimilarity s fp < ?thr
        \<and> (\<forall>(j, r) \<in> otherProfiles s. compareFingerprints (Some fp) (Some r) < ?thr) \<longrightarrow>
         fst ?d = speakerCount s \<and> speakerCount (snd ?d) = speakerCount s + 1"
  proof (intro impI, elim conjE)
    assume lt: "currentSimilarity s fp < ?thr"
      and all: "\<forall>(j, r) \<in> otherProfiles s. compareFingerprints (Some fp) (Some r) < ?thr"
    from differ [OF lt] all have
      "analysePending s =
             s\<lparr>currentSpeakerId := speakerCount s, speakerCount := speakerCount s + 1,
                pendingAnalysis := False\<rparr>"
      by fastforce
    then show "fst ?d = speakerCount s \<and> speakerCount (snd ?d) = speakerCount s + 1"
      by (simp add: d)
  qed
  have noprofile: "map_of (speakerProfiles s) (currentSpeakerId s) = None \<longrightarrow>
         currentSimilarity s fp = 1
         \<and> (speakerSensitivity s \<le> 100 \<longrightarrow> fst ?d = currentSpeakerId s)"
  proof (intro impI conjI)
    assume none: "map_of (speakerProfiles s) (currentSpeakerId s) = None"
    then show one: "currentSimilarity s fp = 1" by (simp add: currentSimilarity_def)
    assume "speakerSensitivity s \<le> 100"
    then have "?thr \<le> 1" by (simp add: getSpeakerDifferThreshold_def)
    with one stay show "fst ?d = currentSpeakerId s" by simp
  qed
  have after: "currentSpeakerId (snd ?d) = fst ?d \<and> \<not> pendingAnalysis (snd ?d)"
  proof (cases "?thr \<le> currentSimilarity s fp")
    case True
    then show ?thesis by (simp add: d analysePending_stay [OF pend enough fp])
  next
    case False
    then have "currentSimilarity s fp < ?thr" by simp
    from differ [OF this] show ?thesis by (auto simp: d)
  qed
  note after1 = after [THEN conjunct1] and after2 = after [THEN conjunct2]
  show ?thesis
    by (rule exI [of _ fp]) (intro conjI; fact fp stay known new noprofile after1 after2)
qed

theorem detectSpeakerChange_policy_witness:
  "hearingB = onSilenceGap 8500 hearingB
   \<and> pendingAnalysis hearingB
   \<and> VOICE_PROFILE_MIN_SAMPLES \<le> length (voiceSampleBuffer hearingB)
   \<and> currentSpeakerId hearingB = 0
   \<and> speakerCount hearingB = 1
   \<and> fst (detectSpeakerChange 8500 hearingB) = 1
   \<and> speakerCount (snd (detectSpeakerChange 8500 hearingB)) = 2"
proof -
  let ?fpB = "\<lparr>pitchAvg = 220, pitchVar = 0, centroidAvg = 2500, centroidVar = 0\<rparr>"
  have s: "hearingB = onSilenceGap 8500 hearingB"
    by (simp add: hearingB_eq onSilenceGap_def silenceGap_def SPEAKER_ANALYSIS_THRESHOLD_def)
  have p: "pendingAnalysis hearingB"
    by (simp add: hearingB_eq)
  have n: "VOICE_PROFILE_MIN_SAMPLES \<le> length (voiceSampleBuffer hearingB)"
    by (simp add: hearingB_eq VOICE_PROFILE_MIN_SAMPLES_def)
  have built: "buildFingerprint (voiceSampleBuffer hearingB) = Some ?fpB"
    by (simp add: hearingB_eq detect_defs)
  have low: "currentSimilarity hearingB ?fpB < getSpeakerDifferThreshold hearingB"
    by (simp add: hearingB_eq currentSimilarity_def compareFingerprints_def
        getSpeakerDifferThreshold_def)
  have alone: "otherProfiles hearingB = {}"
    by (auto simp: otherProfiles_def hearingB_eq)
  from detectSpeakerChange_policy [OF s p n] obtain fp where
    fp: "buildFingerprint (voiceSampleBuffer hearingB) = Some fp"
    and mint: "currentSimilarity hearingB fp < getSpeakerDifferThreshold hearingB
        \<and> (\<forall>(j, r) \<in> otherProfiles hearingB.
              compareFingerprints (Some fp) (Some r) < getSpeakerDifferThreshold hearingB) \<longrightarrow>
         fst (detectSpeakerChange 8500 hearingB) = speakerCount hearingB
         \<and> speakerCount (snd (detectSpeakerChange 8500 hearingB)) = speakerCount hearingB + 1"
    by blast
  from fp built have "fp = ?fpB" by simp
  with mint low alone have
    "fst (detectSpeakerChange 8500 hearingB) = speakerCount hearingB
     \<and> speakerCount (snd (detectSpeakerChange 8500 hearingB)) = speakerCount hearingB + 1"
    by simp
  moreover have "currentSpeakerId hearingB = 0" and "speakerCount hearingB = 1"
    by (simp_all add: hearingB_eq)
  ultimately show ?thesis using s p n by simp
qed


section \<open>Silence gaps\<close>

text \<open>
  Claim C2. In \<open>detectSpeakerChange\<close>, an event whose silence gap exceeds the analysis
  threshold, and any event at which the buffer has fewer than the minimum of samples,
  returns the previous current speaker and leaves the current id and the counter as they
  were; after a gap the analysis is pending and the buffer is empty; a pending analysis
  stays pending while the samples are too few; and an event returns another id only if the
  analysis was pending, the samples were enough and the event did not itself follow a gap.
\<close>

theorem silence_gap_keeps_speaker:
  "(SPEAKER_ANALYSIS_THRESHOLD < silenceGap now st
      \<or> length (voiceSampleBuffer st) < VOICE_PROFILE_MIN_SAMPLES \<longrightarrow>
        fst (detectSpeakerChange now st) = currentSpeakerId st
        \<and> currentSpeakerId (snd (detectSpeakerChange now st)) = currentSpeakerId st
        \<and> speakerCount (snd (detectSpeakerChange now st)) = speakerCount st)
   \<and> (SPEAKER_ANALYSIS_THRESHOLD < silenceGap now st \<longrightarrow>
        pendingAnalysis (snd (detectSpeakerChange now st))
        \<and> voiceSampleBuffer (snd (detectSpeakerChange now st)) = [])
   \<and> (pendingAnalysis st \<and> length (voiceSampleBuffer st) < VOICE_PROFILE_MIN_SAMPLES \<longrightarrow>
        pendingAnalysis (snd (detectSpeakerChange now st)))
   \<and> (fst (detectSpeakerChange now st) \<noteq> currentSpeakerId st \<longrightarrow>
        pendingAnalysis st \<and> VOICE_PROFILE_MIN_SAMPLES \<le> length (voiceSampleBuffer st)
        \<and> silenceGap now st \<le> SPEAKER_ANALYSIS_THRESHOLD)"
proof -
  let ?d = "detectSpeakerChange now st"
  have gap: "analysePending (onSilenceGap now st) = onSilenceGap now st"
    if "SPEAKER_ANALYSIS_THRESHOLD < silenceGap now st"
    using onSilenceGap_gap(1) [OF that] MIN_pos by (simp add: analysePending_skip)
  have few: "analysePending (onSilenceGap now st) = onSilenceGap now st"
    if "length (voiceSampleBuffer st) < VOICE_PROFILE_MIN_SAMPLES"
  proof (cases "SPEAKER_ANALYSIS_THRESHOLD < silenceGap now st")
    case True
    then show ?thesis by (rule gap)
  next
    case False
    then show ?thesis using that by (simp add: onSilenceGap_none analysePending_skip)
  qed
  have idle: "analysePending (onSilenceGap now st) = st"
    if "\<not> pendingAnalysis st" "silenceGap now st \<le> SPEAKER_ANALYSIS_THRESHOLD"
    using that by (simp add: onSilenceGap_none analysePending_skip)
  have same_cur: "currentSpeakerId (onSilenceGap now st) = currentSpeakerId st"
    and same_count: "speakerCount (onSilenceGap now st) = speakerCount st"
    using onSilenceGap_gap(3,4) [of now st] onSilenceGap_none [of now st]
    by (cases "SPEAKER_ANALYSIS_THRESHOLD < silenceGap now st"; simp)+
  have keep: "SPEAKER_ANALYSIS_THRESHOLD < silenceGap now st
      \<or> length (voiceSampleBuffer st) < VOICE_PROFILE_MIN_SAMPLES \<longrightarrow>
        fst ?d = currentSpeakerId st
        \<and> currentSpeakerId (snd ?d) = currentSpeakerId st
        \<and> speakerCount (snd ?d) = speakerCount st"
    using gap few by (auto simp: detect_unfold same_cur same_count)
  have pending: "SPEAKER_ANALYSIS_THRESHOLD < silenceGap now st \<longrightarrow>
        pendingAnalysis (snd ?d) \<and> voiceSampleBuffer (snd ?d) = []"
    using gap onSilenceGap_gap(1,2) [of now st] by (simp add: detect_unfold)
  have waits: "pendingAnalysis st \<and> length (voiceSampleBuffer st) < VOICE_PROFILE_MIN_SAMPLES \<longrightarrow>
        pendingAnalysis (snd ?d)"
  proof (intro impI, elim conjE)
    assume p: "pendingAnalysis st" and f: "length (voiceSampleBuffer st) < VOICE_PROFILE_MIN_SAMPLES"
    show "pendingAnalysis (snd ?d)"
    proof (cases "SPEAKER_ANALYSIS_THRESHOLD < silenceGap now st")
      case True
      then show ?thesis using pending by simp
    next
      case False
      then show ?thesis using p few [OF f] by (simp add: detect_unfold onSilenceGap_none)
    qed
  qed
  have only: "fst ?d \<noteq> currentSpeakerId st \<longrightarrow>
        pendingAnalysis st \<and> VOICE_PROFILE_MIN_SAMPLES \<le> length (voiceSampleBuffer st)
        \<and> silenceGap now st \<le> SPEAKER_ANALYSIS_THRESHOLD"
  proof (intro impI)
    assume ch: "fst ?d \<noteq> currentSpeakerId st"
    have nogap: "silenceGap now st \<le> SPEAKER_ANALYSIS_THRESHOLD"
      using ch keep by force
    have "VOICE_PROFILE_MIN_SAMPLES \<le> length (voiceSampleBuffer st)"
      using ch keep by force
    moreover have "pendingAnalysis st"
    proof (rule ccontr)
      assume "\<not> pendingAnalysis st"
      from idle [OF this nogap] ch show False by (simp add: detect_unfold)
    qed
    ultimately show "pendingAnalysis st \<and> VOICE_PROFILE_MIN_SAMPLES \<le> length (voiceSampleBuffer st)
        \<and> silenceGap now st \<le> SPEAKER_ANALYSIS_THRESHOLD"
      using nogap by simp
  qed
  show ?thesis
    by (rule conjI [OF keep conjI [OF pending conjI [OF waits only]]])
qed

theorem silence_gap_keeps_speaker_witness:
  "SPEAKER_ANALYSIS_THRESHOLD < silenceGap 4000 firstWords
   \<and> currentSpeakerId firstWords = 0
   \<and> fst (detectSpeakerChange 4000 firstWords) = 0
   \<and> pendingAnalysis (snd (detectSpeakerChange 4000 firstWords))
   \<and> voiceSampleBuffer (snd (detectSpeakerChange 4000 firstWords)) = []"
proof -
  have gap: "SPEAKER_ANALYSIS_THRESHOLD < silenceGap 4000 firstWords"
    by (simp add: firstWords_eq silenceGap_def SPEAKER_ANALYSIS_THRESHOLD_def)
  have cur: "currentSpeakerId firstWords = 0"
    by (simp add: firstWords_eq)
  show ?thesis
    using gap cur silence_gap_keeps_speaker [of 4000 firstWords]
    by simp
qed

section \<open>Speaker ids and the counter\<close>

lemma Object_keys_Nil [simp]: "Object_keys [] = []"
  by (simp add: Object_keys_def)

lemma keys_update: "set (Object_keys (AList.update k v al)) = insert k (set (Object_keys al))"
  by (simp add: set_Object_keys dom_update)

lemma keys_delete: "set (Object_keys (AList.delete k al)) \<subseteq> set (Object_keys al)"
  by (simp add: set_Object_keys dom_delete_subset)

lemma keys_map_of: "k \<in> set (Object_keys al) \<longleftrightarrow> map_of al k \<noteq> None"
  by (simp add: set_Object_keys map_of_eq_None_iff)

lemma saved_after_save:
  "idsBelowCount st \<Longrightarrow> savedIdsBelowCount (localStorage (saveSpeakerProfiles st))"
  by (simp add: idsBelowCount_def savedIdsBelowCount_def saveSpeakerProfiles_def)

lemma idsBelowCount_save [simp]: "idsBelowCount (saveSpeakerProfiles st) = idsBelowCount st"
  by (simp add: idsBelowCount_def saveSpeakerProfiles_def)

lemma storeInvariant_save: "storeInvariant b st \<Longrightarrow> storeInvariant b (saveSpeakerProfiles st)"
  by (simp add: storeInvariant_def saved_after_save)

lemma storeInvariant_render [simp]:
  "storeInvariant b (renderSavedSpeakers st) = storeInvariant b st"
  by (simp add: storeInvariant_def idsBelowCount_def)

lemma storeInvariant_update:
  assumes "storeInvariant b st" "speakerId < speakerCount st"
  shows "storeInvariant b (updateSpeakerProfile speakerId fingerprint st)"
proof (cases fingerprint)
  case None
  then show ?thesis using assms by (simp add: updateSpeakerProfile_absent)
next
  case (Some fp)
  have step: "storeInvariant b (st\<lparr>speakerProfiles := AList.update speakerId v (speakerProfiles st)\<rparr>)" for v
    using assms by (simp add: storeInvariant_def idsBelowCount_def keys_update)
  show ?thesis
    unfolding Some updateSpeakerProfile_def
    by (simp add: Let_def step storeInvariant_save split: option.splits)
qed

lemma storeInvariant_fields:
  "storeInvariant b st \<Longrightarrow> speakerProfiles st' = speakerProfiles st \<Longrightarrow> speakerCount st' = speakerCount st
   \<Longrightarrow> localStorage st' = localStorage st \<Longrightarrow> currentSpeakerId st' = currentSpeakerId st
   \<Longrightarrow> storeInvariant b st'"
  by (simp add: storeInvariant_def idsBelowCount_def)

lemma storeInvariant_onSilenceGap:
  assumes "storeInvariant True st"
  shows "storeInvariant True (onSilenceGap now st)"
proof (cases "SPEAKER_ANALYSIS_THRESHOLD < silenceGap now st")
  case True
  have cur: "currentSpeakerId st < speakerCount st" using assms by (simp add: storeInvariant_def)
  have "storeInvariant True (updateSpeakerProfile (currentSpeakerId st)
      (buildFingerprint (voiceSampleBuffer st)) st)"
    by (rule storeInvariant_update [OF assms cur])
  then show ?thesis
    using True
    by (simp add: onSilenceGap_def Let_def startVoiceSampling_def stopVoiceSampling_def
        storeInvariant_def idsBelowCount_def)
next
  case False
  then show ?thesis using assms by (simp add: onSilenceGap_def)
qed

lemma analysePending_outcomes:
  "analysePending st = st
   \<or> analysePending st = st\<lparr>pendingAnalysis := False\<rparr>
   \<or> (\<exists>(i, q) \<in> otherProfiles st.
         analysePending st = st\<lparr>currentSpeakerId := i, pendingAnalysis := False\<rparr>)
   \<or> analysePending st =
        st\<lparr>currentSpeakerId := speakerCount st, speakerCount := speakerCount st + 1,
           pendingAnalysis := False\<rparr>"
proof (cases "pendingAnalysis st \<and> VOICE_PROFILE_MIN_SAMPLES \<le> length (voiceSampleBuffer st)")
  case False
  then show ?thesis by (simp add: analysePending_skip)
next
  case True
  then have p: "pendingAnalysis st" and n: "VOICE_PROFILE_MIN_SAMPLES \<le> length (voiceSampleBuffer st)"
    by simp_all
  obtain fp where fp: "buildFingerprint (voiceSampleBuffer st) = Some fp"
    using buildFingerprint_Some [OF n] by blast
  show ?thesis
  proof (cases "getSpeakerDifferThreshold st \<le> currentSimilarity st fp")
    case True
    then show ?thesis by (simp add: analysePending_stay [OF p n fp])
  next
    case False
    then have "currentSimilarity st fp < getSpeakerDifferThreshold st" by simp
    from analysePending_cases [OF p n fp this] show ?thesis by fastforce
  qed
qed

lemma otherProfiles_key:
  "(i, q) \<in> otherProfiles st \<Longrightarrow> i \<in> set (Object_keys (speakerProfiles st))"
  by (simp add: otherProfiles_def keys_map_of)

lemma storeInvariant_analysePending:
  assumes "storeInvariant True st"
  shows "storeInvariant True (analysePending st)"
proof -
  have ids: "\<forall>k \<in> set (Object_keys (speakerProfiles st)). k < speakerCount st"
    and cur: "currentSpeakerId st < speakerCount st"
    and sav: "savedIdsBelowCount (localStorage st)"
    using assms by (simp_all add: storeInvariant_def idsBelowCount_def)
  consider "analysePending st = st"
    | "analysePending st = st\<lparr>pendingAnalysis := False\<rparr>"
    | i q where "(i, q) \<in> otherProfiles st"
        "analysePending st = st\<lparr>currentSpeakerId := i, pendingAnalysis := False\<rparr>"
    | "analysePending st =
        st\<lparr>currentSpeakerId := speakerCount st, speakerCount := speakerCount st + 1,
           pendingAnalysis := False\<rparr>"
    using analysePending_outcomes [of st] by fastforce
  then show ?thesis
  proof cases
    case 1
    then show ?thesis using assms by simp
  next
    case 2
    then show ?thesis using ids cur sav by (simp add: storeInvariant_def idsBelowCount_def)
  next
    case 3
    then have "i < speakerCount st" using ids otherProfiles_key by blast
    then show ?thesis using 3 ids sav by (simp add: storeInvariant_def idsBelowCount_def)
  next
    case 4
    then show ?thesis using ids sav by (auto simp: storeInvariant_def idsBelowCount_def less_Suc_eq)
  qed
qed

lemma storeInvariant_detect:
  assumes "storeInvariant True st"
  shows "storeInvariant True (snd (detectSpeakerChange now st))"
proof -
  have "storeInvariant True (analysePending (onSilenceGap now st))"
    by (rule storeInvariant_analysePending [OF storeInvariant_onSilenceGap [OF assms]])
  then show ?thesis
    by (simp add: detect_unfold storeInvariant_def idsBelowCount_def)
qed

lemma storeInvariant_reset:
  assumes "savedIdsBelowCount (localStorage st)"
  shows "storeInvariant True (resetSpeakerState st)"
proof (cases "localStorage st")
  case None
  then show ?thesis
    by (simp add: resetSpeakerState_def loadSpeakerProfiles_def stopVoiceSampling_def storeInvariant_def
        idsBelowCount_def savedIdsBelowCount_def Object_keys_def)
next
  case (Some saved)
  have below: "\<forall>k \<in> set (Object_keys (saved_profiles saved)). k < saved_speakerCount saved"
    using assms Some by (simp add: savedIdsBelowCount_def)
  show ?thesis
  proof (cases "0 < length (Object_keys (saved_profiles saved))")
    case False
    then show ?thesis
      using Some assms
      by (simp add: resetSpeakerState_def loadSpeakerProfiles_def stopVoiceSampling_def storeInvariant_def
          idsBelowCount_def)
  next
    case True
    then obtain k where "k \<in> set (Object_keys (saved_profiles saved))"
      by (cases "Object_keys (saved_profiles saved)") auto
    with below have pos: "saved_speakerCount saved \<noteq> 0" by auto
    show ?thesis
      using Some assms True pos below
      by (simp add: resetSpeakerState_def loadSpeakerProfiles_def stopVoiceSampling_def storeInvariant_def
          idsBelowCount_def)
  qed
qed

lemma storeInvariant_delete: "storeInvariant b st \<Longrightarrow> storeInvariant b (deleteSavedSpeaker speakerId st)"
proof -
  assume a: "storeInvariant b st"
  have "storeInvariant b (st\<lparr>speakerProfiles := AList.delete speakerId (speakerProfiles st),
          speakerNames := AList.delete speakerId (speakerNames st),
          speakerColorMap := AList.delete speakerId (speakerColorMap st)\<rparr>)"
    using a keys_delete [of speakerId "speakerProfiles st"]
    by (auto simp: storeInvariant_def idsBelowCount_def)
  then show ?thesis by (simp add: deleteSavedSpeaker_def storeInvariant_save)
qed

lemma storeInvariant_clear: "storeInvariant b (clearAllSpeakers st)"
  by (simp add: clearAllSpeakers_def)
    (simp add: storeInvariant_def idsBelowCount_def savedIdsBelowCount_def)

lemma storeInvariant_stop:
  assumes "storeInvariant True st"
  shows "storeInvariant True (stopListening st)"
proof -
  have "storeInvariant True (stopVoiceSampling st)"
    by (rule storeInvariant_fields [OF assms]) (simp_all add: stopVoiceSampling_def)
  moreover have "currentSpeakerId (stopVoiceSampling st) < speakerCount (stopVoiceSampling st)"
    using assms by (simp add: storeInvariant_def stopVoiceSampling_def)
  ultimately show ?thesis
    by (simp add: stopListening_def Let_def storeInvariant_save storeInvariant_update)
qed

lemma reach_inv: "reach b st \<Longrightarrow> storeInvariant b st"
proof (induction rule: reach.induct)
  case page
  show ?case
    by (simp add: pageLoad_def)
      (simp add: storeInvariant_def initialState_def idsBelowCount_def savedIdsBelowCount_def)
next
  case (reload b st)
  then show ?case
    by (simp add: pageLoad_def)
      (simp add: storeInvariant_def initialState_def idsBelowCount_def)
next
  case (sensitivity b st s)
  then show ?case by (simp add: storeInvariant_def idsBelowCount_def)
next
  case (start b st)
  then have "savedIdsBelowCount (localStorage st)" by (simp add: storeInvariant_def)
  then show ?case by (rule storeInvariant_reset)
next
  case (delete b st speakerId)
  from delete.IH show ?case by (rule storeInvariant_delete)
next
  case (clear b st)
  show ?case by (rule storeInvariant_clear)
next
  case (sample st p c)
  then show ?case by (simp add: collectVoiceSample_def storeInvariant_def idsBelowCount_def)
next
  case (speech st now)
  from speech.IH show ?case by (rule storeInvariant_detect)
next
  case (color st)
  then show ?case by (simp add: getSpeakerColor_def Let_def storeInvariant_def idsBelowCount_def)
next
  case (stop st)
  from stop.IH show ?case by (rule storeInvariant_stop)
qed

lemma detect_count:
  "speakerCount (snd (detectSpeakerChange now st)) = speakerCount st
   \<or> (speakerCount (snd (detectSpeakerChange now st)) = speakerCount st + 1
       \<and> fst (detectSpeakerChange now st) = speakerCount st)"
proof -
  have c: "speakerCount (onSilenceGap now st) = speakerCount st"
    using onSilenceGap_gap(4) [of now st] onSilenceGap_none [of now st]
    by (cases "SPEAKER_ANALYSIS_THRESHOLD < silenceGap now st"; simp)
  show ?thesis
    using analysePending_outcomes [of "onSilenceGap now st"] c
    by (auto simp: detect_unfold)
qed

lemma reach_collectSamples: "reach True st \<Longrightarrow> reach True (collectSamples xs st)"
  by (induction xs arbitrary: st) (simp_all add: reach.sample)

lemma reach_thirdPause: "reach True thirdPause"
proof -
  have "reach True started"
    unfolding started_def by (rule reach.start [OF reach.page])
  then have "reach True firstWords"
    unfolding firstWords_def by (rule reach.speech)
  then have "reach True afterPause"
    unfolding afterPause_def by (rule reach.speech)
  then have "reach True hearingA"
    unfolding hearingA_def by (rule reach_collectSamples)
  then have "reach True keptA"
    unfolding keptA_def by (rule reach.speech)
  then have "reach True secondPause"
    unfolding secondPause_def by (rule reach.speech)
  then have "reach True hearingB"
    unfolding hearingB_def by (rule reach_collectSamples)
  then have "reach True mintedB"
    unfolding mintedB_def by (rule reach.speech)
  then show ?thesis
    unfolding thirdPause_def by (rule reach.speech)
qed

text \<open>
  Claim C8, as stated, after deleting an individual saved speaker: in the session with two
  voices, stopping has saved the speakers 0 and 1 and listed both; once speaker 0 is
  deleted from that list, the profile store holds the id 1 alone, while the current
  speaker is 1 and the counter is 2. The ids in the store do not start at 0.
\<close>

theorem delete_leaves_hole:
  "reach True deletedA
   \<and> savedSpeakersList stopped = [0, 1]
   \<and> Object_keys (speakerProfiles deletedA) = [1]
   \<and> currentSpeakerId deletedA = 1
   \<and> speakerCount deletedA = 2"
proof -
  have "reach True stopped"
    unfolding stopped_def by (rule reach.stop [OF reach_thirdPause])
  moreover have "0 \<in> set (savedSpeakersList stopped)"
    by (simp add: stopped_eq)
  ultimately have "reach True deletedA"
    unfolding deletedA_def by (rule reach.delete)
  then show ?thesis
    by (simp add: stopped_eq deletedA_eq Object_keys_def)
qed

text \<open>
  Claim C8, amended. In every state reached after \<open>resetSpeakerState\<close> (with or without
  stored data), the current speaker id and the id of every stored profile are below
  \<open>speakerCount\<close>; a speech event leaves the counter as it is or returns the old
  counter as a new id and adds 1 to the counter; deleting a saved speaker removes that id
  from the profile store and leaves the counter as it is, so the ids in the store can have
  holes.
\<close>

theorem ids_below_speakerCount:
  assumes "reach True st"
  shows "currentSpeakerId st < speakerCount st
    \<and> (\<forall>k p. map_of (speakerProfiles st) k = Some p \<longrightarrow> k < speakerCount st)
    \<and> (speakerCount (snd (detectSpeakerChange now st)) = speakerCount st
        \<or> (speakerCount (snd (detectSpeakerChange now st)) = speakerCount st + 1
            \<and> fst (detectSpeakerChange now st) = speakerCount st))
    \<and> speakerCount (deleteSavedSpeaker speakerId st) = speakerCount st
    \<and> map_of (speakerProfiles (deleteSavedSpeaker speakerId st)) =
        (map_of (speakerProfiles st))(speakerId := None)"
proof -
  have i: "storeInvariant True st" by (rule reach_inv [OF assms])
  then have cur: "currentSpeakerId st < speakerCount st" by (simp add: storeInvariant_def)
  have ids: "\<forall>k p. map_of (speakerProfiles st) k = Some p \<longrightarrow> k < speakerCount st"
    using i by (auto simp: storeInvariant_def idsBelowCount_def keys_map_of)
  have del: "speakerCount (deleteSavedSpeaker speakerId st) = speakerCount st"
    "map_of (speakerProfiles (deleteSavedSpeaker speakerId st)) =
        (map_of (speakerProfiles st))(speakerId := None)"
    by (simp_all add: deleteSavedSpeaker_def delete_conv')
  show ?thesis
    by (intro conjI; fact cur ids detect_count del)
qed

theorem ids_below_speakerCount_witness:
  "reach True thirdPause
   \<and> currentSpeakerId thirdPause = 1
   \<and> speakerCount thirdPause = 2
   \<and> currentSpeakerId thirdPause < speakerCount thirdPause"
  using reach_thirdPause ids_below_speakerCount [OF reach_thirdPause]
  by (simp add: thirdPause_eq)

end
